theory Spec2Isabelle
  imports Complex_Main
begin

section \<open>JavaScript numbers\<close>

text \<open>
  The tracker computes with JavaScript numbers. A number is modelled as a finite value,
  one of the two infinities, or NaN. Finite values are exact rationals: the rounding of
  binary floating point and the sign of zero are not modelled. What is modelled is
  every special case the code depends on: \<open>x / 0\<close> is an infinity or NaN and never an
  exception, NaN is absorbing, every comparison with NaN is false, and \<open>!x\<close> is true
  exactly for \<open>0\<close> and NaN.
\<close>

datatype jsnum = Fin rat | PInf | NInf | NaN

fun jsneg :: "jsnum \<Rightarrow> jsnum" where
  "jsneg (Fin a) = Fin (- a)"
| "jsneg PInf = NInf"
| "jsneg NInf = PInf"
| "jsneg NaN = NaN"

fun jsadd :: "jsnum \<Rightarrow> jsnum \<Rightarrow> jsnum" where
  "jsadd NaN _ = NaN"
| "jsadd _ NaN = NaN"
| "jsadd (Fin a) (Fin b) = Fin (a + b)"
| "jsadd PInf NInf = NaN"
| "jsadd NInf PInf = NaN"
| "jsadd PInf _ = PInf"
| "jsadd _ PInf = PInf"
| "jsadd NInf _ = NInf"
| "jsadd _ NInf = NInf"

definition jssub :: "jsnum \<Rightarrow> jsnum \<Rightarrow> jsnum" where
  "jssub a b = jsadd a (jsneg b)"

text \<open>The sign of a number: \<open>Some True\<close> positive, \<open>Some False\<close> negative, \<open>None\<close> zero or NaN.\<close>

fun jssign :: "jsnum \<Rightarrow> bool option" where
  "jssign (Fin a) = (if a = 0 then None else Some (0 < a))"
| "jssign PInf = Some True"
| "jssign NInf = Some False"
| "jssign NaN = None"

definition signedInf :: "bool \<Rightarrow> jsnum" where
  "signedInf pos = (if pos then PInf else NInf)"

fun jsmul :: "jsnum \<Rightarrow> jsnum \<Rightarrow> jsnum" where
  "jsmul NaN _ = NaN"
| "jsmul _ NaN = NaN"
| "jsmul (Fin a) (Fin b) = Fin (a * b)"
| "jsmul a b =
     (case (jssign a, jssign b) of
        (Some p, Some q) \<Rightarrow> signedInf (p = q)
      | _ \<Rightarrow> NaN)"

fun jsdiv :: "jsnum \<Rightarrow> jsnum \<Rightarrow> jsnum" where
  "jsdiv NaN _ = NaN"
| "jsdiv _ NaN = NaN"
| "jsdiv (Fin a) (Fin b) =
     (if b \<noteq> 0 then Fin (a / b)
      else if a = 0 then NaN
      else signedInf (0 < a))"
| "jsdiv (Fin a) _ = Fin 0"
| "jsdiv a (Fin b) = signedInf ((a = PInf) = (0 \<le> b))"
| "jsdiv _ _ = NaN"

fun jsgt :: "jsnum \<Rightarrow> jsnum \<Rightarrow> bool" where
  "jsgt NaN _ = False"
| "jsgt _ NaN = False"
| "jsgt (Fin a) (Fin b) = (b < a)"
| "jsgt PInf b = (b \<noteq> PInf)"
| "jsgt a NInf = (a \<noteq> NInf)"
| "jsgt _ _ = False"

definition jslt :: "jsnum \<Rightarrow> jsnum \<Rightarrow> bool" where
  "jslt a b = jsgt b a"

definition jsle :: "jsnum \<Rightarrow> jsnum \<Rightarrow> bool" where
  "jsle a b = (a \<noteq> NaN \<and> b \<noteq> NaN \<and> \<not> jsgt a b)"

definition isNaN :: "jsnum \<Rightarrow> bool" where
  "isNaN a = (a = NaN)"

text \<open>\<open>!x\<close> on a number.\<close>

definition falsy :: "jsnum \<Rightarrow> bool" where
  "falsy a = (a = Fin 0 \<or> a = NaN)"

definition isFinite :: "jsnum \<Rightarrow> bool" where
  "isFinite a = (case a of Fin _ \<Rightarrow> True | _ \<Rightarrow> False)"

section \<open>Holdings and the metrics calculator\<close>

text \<open>
  A holding as the localStorage front end and the in-memory demo keep it; the
  API-backed front end (frontend/src/App.js) adds the identity assigned by the server.
\<close>

record holding =
  symbol :: string
  shares :: jsnum
  purchasePrice :: jsnum
  purchaseDate :: string
  currentPrice :: jsnum

record api_holding = holding +
  holding_id :: string

record metrics =
  marketValue :: jsnum
  totalGainLoss :: jsnum
  gainLossPercent :: jsnum

text \<open>
  \<open>calculateHoldingMetrics\<close>, identical in frontend/src/App.js and in the localStorage
  front end.
\<close>

definition calculateHoldingMetrics :: "'a holding_scheme \<Rightarrow> metrics" where
  "calculateHoldingMetrics h =
     (let marketValue = jsmul (shares h) (currentPrice h);
          totalCost = jsmul (shares h) (purchasePrice h);
          totalGainLoss = jssub marketValue totalCost;
          gainLossPercent =
            (if jsgt totalCost (Fin 0) then jsmul (jsdiv totalGainLoss totalCost) (Fin 100)
             else Fin 0)
      in \<lparr>marketValue = marketValue, totalGainLoss = totalGainLoss,
          gainLossPercent = gainLossPercent\<rparr>)"

text \<open>
  The in-memory demo (src/app.js) has no such function: \<open>createTableRow\<close> and
  \<open>createMobileCard\<close> compute the three values inline, the percentage without a guard.
\<close>

definition createTableRow_demo :: "'a holding_scheme \<Rightarrow> metrics" where
  "createTableRow_demo h =
     (let marketValue = jsmul (shares h) (currentPrice h);
          totalGainLoss = jssub marketValue (jsmul (shares h) (purchasePrice h));
          gainLossPercent =
            jsmul (jsdiv totalGainLoss (jsmul (shares h) (purchasePrice h))) (Fin 100)
      in \<lparr>marketValue = marketValue, totalGainLoss = totalGainLoss,
          gainLossPercent = gainLossPercent\<rparr>)"

section \<open>Strings\<close>

text \<open>
  Strings are lists of 8-bit characters. \<open>toUpperCase\<close> and \<open>trim\<close> are modelled on
  ASCII: letters \<open>a\<close> to \<open>z\<close> are raised, every other character is kept, and white
  space is tab, line feed, vertical tab, form feed, carriage return and space.
\<close>

definition isWhiteSpace :: "char \<Rightarrow> bool" where
  "isWhiteSpace c = (let n = (of_char c :: nat) in (9 \<le> n \<and> n \<le> 13) \<or> n = 32)"

definition isDigit :: "char \<Rightarrow> bool" where
  "isDigit c = (let n = (of_char c :: nat) in 48 \<le> n \<and> n \<le> 57)"

definition isUpper :: "char \<Rightarrow> bool" where
  "isUpper c = (let n = (of_char c :: nat) in 65 \<le> n \<and> n \<le> 90)"

definition toUpperChar :: "char \<Rightarrow> char" where
  "toUpperChar c =
     (let n = (of_char c :: nat) in if 97 \<le> n \<and> n \<le> 122 then char_of (n - 32) else c)"

definition toUpperCase :: "string \<Rightarrow> string" where
  "toUpperCase s = map toUpperChar s"

definition trim :: "string \<Rightarrow> string" where
  "trim s = rev (dropWhile isWhiteSpace (rev (dropWhile isWhiteSpace s)))"

text \<open>The demo's \<open>symbolRegex = /^[A-Z0-9]{1,6}$/\<close>, as \<open>symbolRegex.test\<close>.\<close>

definition symbolRegex :: "string \<Rightarrow> bool" where
  "symbolRegex s = (1 \<le> length s \<and> length s \<le> 6 \<and> list_all (\<lambda>c. isUpper c \<or> isDigit c) s)"

subsection \<open>parseFloat and parseInt\<close>

text \<open>
  \<open>parseFloat\<close> skips leading white space and reads the longest prefix that is a decimal
  literal: an optional sign, then \<open>Infinity\<close>, or digits with an optional fraction and
  an optional exponent. With no such prefix the result is NaN. The value read is exact
  (a literal too large for a double is not turned into an infinity).
\<close>

definition digitVal :: "char \<Rightarrow> nat" where
  "digitVal c = of_char c - 48"

definition digitsVal :: "string \<Rightarrow> nat" where
  "digitsVal ds = foldl (\<lambda>a c. 10 * a + digitVal c) 0 ds"

definition takeSign :: "string \<Rightarrow> bool \<times> string" where
  "takeSign s =
     (case s of
        [] \<Rightarrow> (False, [])
      | c # r \<Rightarrow> if c = CHR ''-'' then (True, r) else if c = CHR ''+'' then (False, r) else (False, s))"

definition takeExponent :: "string \<Rightarrow> int" where
  "takeExponent s =
     (case s of
        [] \<Rightarrow> 0
      | c # r \<Rightarrow>
          if c = CHR ''e'' \<or> c = CHR ''E'' then
            (let (neg, r') = takeSign r; ds = takeWhile isDigit r'
             in if ds = [] then 0 else if neg then - int (digitsVal ds) else int (digitsVal ds))
          else 0)"

definition scale10 :: "rat \<Rightarrow> int \<Rightarrow> rat" where
  "scale10 m e = (if 0 \<le> e then m * 10 ^ nat e else m / 10 ^ nat (- e))"

definition parseFloat :: "string \<Rightarrow> jsnum" where
  "parseFloat s =
     (let (neg, u) = takeSign (dropWhile isWhiteSpace s) in
      if take 8 u = ''Infinity'' then signedInf (\<not> neg)
      else
        let ip = takeWhile isDigit u;
            r1 = dropWhile isDigit u;
            (fp, r2) =
              (case r1 of
                 [] \<Rightarrow> ([], [])
               | c # r \<Rightarrow>
                   if c = CHR ''.'' then (takeWhile isDigit r, dropWhile isDigit r)
                   else ([], r1))
        in if ip = [] \<and> fp = [] then NaN
           else
             let m = of_nat (digitsVal (ip @ fp)) / 10 ^ length fp;
                 v = scale10 m (takeExponent r2)
             in Fin (if neg then - v else v))"

text \<open>
  \<open>parseInt\<close> with no radix: white space, a sign, then hexadecimal digits after
  \<open>0x\<close> or \<open>0X\<close> and decimal digits otherwise; NaN when there is no digit.
\<close>

definition isHexDigit :: "char \<Rightarrow> bool" where
  "isHexDigit c =
     (let n = (of_char c :: nat)
      in (48 \<le> n \<and> n \<le> 57) \<or> (65 \<le> n \<and> n \<le> 70) \<or> (97 \<le> n \<and> n \<le> 102))"

definition hexVal :: "char \<Rightarrow> nat" where
  "hexVal c =
     (let n = (of_char c :: nat)
      in if n \<le> 57 then n - 48 else if n \<le> 70 then n - 55 else n - 87)"

definition parseInt :: "string \<Rightarrow> jsnum" where
  "parseInt s =
     (let (neg, u) = takeSign (dropWhile isWhiteSpace s);
          hex = (take 2 u = ''0x'' \<or> take 2 u = ''0X'');
          ds = (if hex then takeWhile isHexDigit (drop 2 u) else takeWhile isDigit u);
          n = (if hex then foldl (\<lambda>a c. 16 * a + hexVal c) 0 ds else digitsVal ds)
      in if ds = [] then NaN else Fin (if neg then - of_nat n else of_nat n))"

subsection \<open>join and split\<close>

text \<open>
  \<open>xs.join(',')\<close> and \<open>str.split(c)\<close>. The split of the empty string is the list
  with the empty string.
\<close>

fun join_comma :: "string list \<Rightarrow> string" where
  "join_comma [] = []"
| "join_comma [x] = x"
| "join_comma (x # y # ys) = x @ CHR '','' # join_comma (y # ys)"

fun split_on :: "char \<Rightarrow> string \<Rightarrow> string list" where
  "split_on sep [] = [[]]"
| "split_on sep (c # cs) =
     (if c = sep then [] # split_on sep cs
      else (case split_on sep cs of
              [] \<Rightarrow> [[c]]
            | w # ws \<Rightarrow> (c # w) # ws))"

section \<open>Objects keyed by strings\<close>

text \<open>
  \<open>this.portfolios\<close> and \<open>this.holdings\<close> are plain objects used as dictionaries.
  An object is modelled as an association list in insertion order, which is the order
  of \<open>Object.keys\<close> and \<open>Object.values\<close> for keys that are not array indices
  (portfolio and holding identities are UUIDs or \<open>portfolio-<time>\<close> strings).
  Assigning to a key that exists replaces the value in place; assigning to a new key
  appends.
\<close>

type_synonym 'v obj = "(string \<times> 'v) list"

definition obj_get :: "'v obj \<Rightarrow> string \<Rightarrow> 'v option" where
  "obj_get ob k = map_of ob k"

fun obj_set :: "string \<Rightarrow> 'v \<Rightarrow> 'v obj \<Rightarrow> 'v obj" where
  "obj_set k v [] = [(k, v)]"
| "obj_set k v ((k', v') # ob) =
     (if k' = k then (k, v) # ob else (k', v') # obj_set k v ob)"

definition obj_delete :: "string \<Rightarrow> 'v obj \<Rightarrow> 'v obj" where
  "obj_delete k ob = filter (\<lambda>kv. fst kv \<noteq> k) ob"

definition obj_keys :: "'v obj \<Rightarrow> string list" where
  "obj_keys ob = map fst ob"

definition obj_values :: "'v obj \<Rightarrow> 'v list" where
  "obj_values ob = map snd ob"

text \<open>
  \<open>Array.from(new Set(xs))\<close>: the elements of \<open>xs\<close> in the order of their first
  occurrence, each once.
\<close>

definition setAdd :: "'a list \<Rightarrow> 'a \<Rightarrow> 'a list" where
  "setAdd seen x = (if x \<in> set seen then seen else seen @ [x])"

definition newSet :: "'a list \<Rightarrow> 'a list" where
  "newSet xs = foldl setAdd [] xs"

section \<open>The API-backed front end (frontend/src/App.js)\<close>

record portfolio =
  portfolio_id :: string
  name :: string
  holdingIds :: "string list"

text \<open>
  The state of \<open>PortfolioTracker\<close>. \<open>currentPortfolioId\<close> is \<open>None\<close> for \<open>null\<close>;
  \<open>priceUpdateInterval\<close> is the handle returned by \<open>setInterval\<close>, \<open>None\<close> for \<open>null\<close>.
\<close>

record tracker =
  portfolios :: "portfolio obj"
  holdings :: "api_holding obj"
  currentPortfolioId :: "string option"
  priceUpdateInterval :: "nat option"

definition getCurrentPortfolio :: "tracker \<Rightarrow> portfolio option" where
  "getCurrentPortfolio s =
     (case currentPortfolioId s of None \<Rightarrow> None | Some i \<Rightarrow> obj_get (portfolios s) i)"

subsection \<open>Portfolio totals\<close>

record totals =
  totalValue :: jsnum
  totalGainLoss :: jsnum
  totalGainLossPercent :: jsnum

text \<open>
  The body of the \<open>forEach\<close> in \<open>calculatePortfolioTotals\<close>, on the pair
  \<open>(totalValue, totalCost)\<close>: an identity that is not in \<open>this.holdings\<close> is skipped.
\<close>

definition addHoldingTotals :: "api_holding obj \<Rightarrow> jsnum \<times> jsnum \<Rightarrow> string \<Rightarrow> jsnum \<times> jsnum" where
  "addHoldingTotals hs acc i =
     (case obj_get hs i of
        None \<Rightarrow> acc
      | Some h \<Rightarrow>
          (jsadd (fst acc) (jsmul (shares h) (currentPrice h)),
           jsadd (snd acc) (jsmul (shares h) (purchasePrice h))))"

definition calculatePortfolioTotals :: "tracker \<Rightarrow> portfolio \<Rightarrow> totals" where
  "calculatePortfolioTotals s p =
     (let (totalValue, totalCost) =
            foldl (addHoldingTotals (holdings s)) (Fin 0, Fin 0) (holdingIds p);
          totalGainLoss = jssub totalValue totalCost;
          totalGainLossPercent =
            (if jsgt totalCost (Fin 0) then jsmul (jsdiv totalGainLoss totalCost) (Fin 100)
             else Fin 0)
      in \<lparr>totalValue = totalValue, totalGainLoss = totalGainLoss,
          totalGainLossPercent = totalGainLossPercent\<rparr>)"

text \<open>
  For the statement of what the totals are: the holdings of a portfolio are the holdings
  its identities resolve to, in the order of \<open>holdingIds\<close>; the sum of a list of
  numbers; and the value of a finite number.
\<close>

definition portfolioHoldings :: "tracker \<Rightarrow> portfolio \<Rightarrow> api_holding list" where
  "portfolioHoldings s p = List.map_filter (obj_get (holdings s)) (holdingIds p)"

primrec jssum :: "jsnum list \<Rightarrow> jsnum" where
  "jssum [] = Fin 0"
| "jssum (x # xs) = jsadd x (jssum xs)"

primrec fin_of :: "jsnum \<Rightarrow> rat" where
  "fin_of (Fin a) = a"
| "fin_of PInf = 0"
| "fin_of NInf = 0"
| "fin_of NaN = 0"

subsection \<open>Price refresh\<close>

text \<open>
  \<open>fetchRealTimePrices\<close> is an async function with one suspension point that matters,
  \<open>await fetch(...)\<close>. It is modelled in two parts: what runs before the call is issued
  (\<open>fetchRealTimePrices_request\<close>: \<open>None\<close> is the early return, \<open>Some url\<close> the call,
  with the URL handed to \<open>fetch\<close>) and what runs when the call settles
  (\<open>fetchRealTimePrices_response\<close>, on the state of that moment). The URL is the
  template string of the source: \<open>API_BASE_URL\<close>, which is \<open>/api\<close>, then
  \<open>/quotes?symbols=\<close>, then the symbols joined with commas, with no encoding of the
  symbols.
\<close>

definition quotesUrl :: "string list \<Rightarrow> string" where
  "quotesUrl syms = ''/api/quotes?symbols='' @ join_comma syms"

definition allSymbols :: "tracker \<Rightarrow> string list" where
  "allSymbols s = newSet (map symbol (obj_values (holdings s)))"

definition fetchRealTimePrices_request :: "tracker \<Rightarrow> string option" where
  "fetchRealTimePrices_request s =
     (let syms = allSymbols s in if length syms = 0 then None else Some (quotesUrl syms))"

text \<open>
  How the call settles: the promise is rejected (network error), the response is not
  \<open>ok\<close> (the backend answers 400 or 500, also when it cannot authenticate upstream), the
  body is not JSON, or the body is an object from symbols to prices. The prices are
  taken to be numbers: a \<open>null\<close>, which the endpoint sends for an infinite price, is
  not a value here. The object is read
  through its own keys: \<open>prices[h.symbol]\<close> is \<open>undefined\<close> exactly for a symbol
  that is not a key (the symbols the front end stores are in upper case and name no
  inherited property).
\<close>

datatype response = Rejected | NotOk | BadJson | Prices "string \<rightharpoonup> jsnum"

datatype refresh_outcome = Rendered | ConsoleError

definition applyPrices :: "(string \<rightharpoonup> jsnum) \<Rightarrow> 'a holding_scheme \<Rightarrow> 'a holding_scheme" where
  "applyPrices prices h =
     (case prices (symbol h) of None \<Rightarrow> h | Some v \<Rightarrow> h\<lparr>currentPrice := v\<rparr>)"

definition fetchRealTimePrices_response :: "tracker \<Rightarrow> response \<Rightarrow> refresh_outcome \<times> tracker" where
  "fetchRealTimePrices_response s r =
     (case r of
        Prices prices \<Rightarrow>
          (Rendered, s\<lparr>holdings := map (\<lambda>kv. (fst kv, applyPrices prices (snd kv))) (holdings s)\<rparr>)
      | _ \<Rightarrow> (ConsoleError, s))"

subsection \<open>The refresh scheduler\<close>

text \<open>
  The timer and the network belong to the browser. A browser state holds the tracker,
  the interval timers that are armed (by handle), the next handle \<open>setInterval\<close> will
  return, and the \<open>fetch\<close> calls to \<open>/api/quotes\<close> that have been issued and have not
  settled, oldest first, each with its URL.
\<close>

record browser =
  app :: tracker
  timers :: "nat list"
  nextTimer :: nat
  inFlight :: "string list"

text \<open>A call of \<open>this.fetchRealTimePrices()\<close> up to its \<open>await fetch(...)\<close>.\<close>

definition callFetchRealTimePrices :: "browser \<Rightarrow> browser" where
  "callFetchRealTimePrices b =
     (case fetchRealTimePrices_request (app b) of
        None \<Rightarrow> b
      | Some url \<Rightarrow> b\<lparr>inFlight := inFlight b @ [url]\<rparr>)"

text \<open>
  \<open>startPriceUpdates\<close>: one call at once, then \<open>clearInterval\<close> on the old handle
  if there is one, then \<open>setInterval\<close> with a callback that calls
  \<open>fetchRealTimePrices\<close>. Handles start at 1, so every handle is truthy.
\<close>

definition startPriceUpdates :: "browser \<Rightarrow> browser" where
  "startPriceUpdates b =
     (let b1 = callFetchRealTimePrices b;
          cleared = (case priceUpdateInterval (app b1) of
                       None \<Rightarrow> timers b1
                     | Some t \<Rightarrow> filter (\<lambda>t'. t' \<noteq> t) (timers b1));
          t = Suc (nextTimer b1)
      in b1\<lparr>app := (app b1)\<lparr>priceUpdateInterval := Some t\<rparr>,
            timers := cleared @ [t], nextTimer := t\<rparr>)"

text \<open>
  The events of the refresh cycle: an armed timer fires and runs its callback; the
  oldest call in flight settles and the rest of \<open>fetchRealTimePrices\<close> runs.
\<close>

datatype event = TimerFires nat | FetchSettles response

definition handle :: "browser \<Rightarrow> event \<Rightarrow> browser" where
  "handle b e =
     (case e of
        TimerFires t \<Rightarrow> if t \<in> set (timers b) then callFetchRealTimePrices b else b
      | FetchSettles r \<Rightarrow>
          (case inFlight b of
             [] \<Rightarrow> b
           | q # qs \<Rightarrow> b\<lparr>app := snd (fetchRealTimePrices_response (app b) r), inFlight := qs\<rparr>))"

definition run :: "browser \<Rightarrow> event list \<Rightarrow> browser" where
  "run b es = foldl handle b es"

subsection \<open>Adding a holding\<close>

text \<open>
  The values of the four inputs of \<open>addStockForm\<close>, read by \<open>addStock\<close> with
  \<open>document.getElementById(...).value\<close>.
\<close>

record form =
  stockSymbol_value :: string
  shares_value :: string
  purchasePrice_value :: string
  purchaseDate_value :: string

text \<open>
  What \<open>addStock\<close> reads from the form: the symbol in upper case and trimmed, and the
  two numbers parsed with \<open>parseFloat\<close> (the demo parses the shares with \<open>parseInt\<close>).
\<close>

definition enteredSymbol :: "form \<Rightarrow> string" where
  "enteredSymbol f = trim (toUpperCase (stockSymbol_value f))"

definition enteredShares :: "form \<Rightarrow> jsnum" where
  "enteredShares f = parseFloat (shares_value f)"

definition enteredPrice :: "form \<Rightarrow> jsnum" where
  "enteredPrice f = parseFloat (purchasePrice_value f)"

definition enteredShares_demo :: "form \<Rightarrow> jsnum" where
  "enteredShares_demo f = parseInt (shares_value f)"

text \<open>
  How \<open>addStock\<close> ends. \<open>NoPortfolio\<close>, \<open>InvalidInput\<close>, \<open>DuplicateStock\<close> and
  \<open>SaveError\<close> are the four dialogs of frontend/src/App.js; \<open>InvalidInput\<close> is the
  validation failure and \<open>DuplicateStock\<close> the duplicate-symbol failure.
  \<open>InvalidSymbol\<close> and \<open>NotPositive\<close> are the demo's two other alerts.
  \<open>TypeError\<close> is the exception of \<open>this.holdings[id].symbol\<close> on an identity
  that is not in \<open>this.holdings\<close>.
\<close>

datatype add_outcome =
  NoPortfolio | InvalidInput | InvalidSymbol | NotPositive | DuplicateStock | TypeError
  | SaveError | Added

text \<open>
  \<open>portfolio.holdingIds.some(id => this.holdings[id].symbol === symbol)\<close>, which
  stops at the first match; \<open>None\<close> is the TypeError.
\<close>

fun someHoldingHasSymbol :: "api_holding obj \<Rightarrow> string \<Rightarrow> string list \<Rightarrow> bool option" where
  "someHoldingHasSymbol hs symb [] = Some False"
| "someHoldingHasSymbol hs symb (i # ids) =
     (case obj_get hs i of
        None \<Rightarrow> None
      | Some h \<Rightarrow> if symbol h = symb then Some True else someHoldingHasSymbol hs symb ids)"

text \<open>
  The backend's \<open>POST /api/portfolios/:portfolioId/holdings\<close> creates the row from the
  four fields of the body and answers with it and the identity it was given. Its answer
  is \<open>Some newId\<close>, or \<open>None\<close> when the request fails or the status is not \<open>ok\<close>.
  After a successful save \<open>addStock\<close> awaits \<open>fetchRealTimePrices\<close>; that refresh is
  the separate step modelled above, and the state returned here is the one it starts from.
  \<open>this.portfolios[portfolio.id]\<close> is the current portfolio itself whenever portfolios
  are stored under their own identity; otherwise the \<open>push\<close> throws inside the
  \<open>try\<close>, after the holding has been stored.
\<close>

definition addStock :: "tracker \<Rightarrow> form \<Rightarrow> string option \<Rightarrow> add_outcome \<times> tracker" where
  "addStock s f reply =
     (case getCurrentPortfolio s of
        None \<Rightarrow> (NoPortfolio, s)
      | Some portfolio \<Rightarrow>
          let symb = enteredSymbol f;
              shs = enteredShares f;
              price = enteredPrice f;
              date = purchaseDate_value f
          in if symb = [] \<or> falsy shs \<or> falsy price \<or> date = []
                \<or> jsle shs (Fin 0) \<or> jslt price (Fin 0)
             then (InvalidInput, s)
             else
               (case someHoldingHasSymbol (holdings s) symb (holdingIds portfolio) of
                  None \<Rightarrow> (TypeError, s)
                | Some True \<Rightarrow> (DuplicateStock, s)
                | Some False \<Rightarrow>
                    (case reply of
                       None \<Rightarrow> (SaveError, s)
                     | Some newId \<Rightarrow>
                         let newHolding =
                               \<lparr>symbol = symb, shares = shs, purchasePrice = price,
                                purchaseDate = date, currentPrice = price,
                                holding_id = newId\<rparr>;
                             s1 = s\<lparr>holdings := obj_set newId newHolding (holdings s)\<rparr>
                         in (case obj_get (portfolios s1) (portfolio_id portfolio) of
                               None \<Rightarrow> (SaveError, s1)
                             | Some p \<Rightarrow>
                                 (Added,
                                  s1\<lparr>portfolios :=
                                       obj_set (portfolio_id portfolio)
                                         (p\<lparr>holdingIds := holdingIds p @ [newId]\<rparr>)
                                         (portfolios s1)\<rparr>)))))"

subsection \<open>Deleting the current portfolio\<close>

text \<open>
  \<open>deletePortfolio\<close> takes no argument: it deletes the current portfolio. After the
  two early returns it opens a dialog; the deletion runs when the user confirms
  (\<open>confirmed\<close>) and the backend's \<open>DELETE\<close> answers \<open>ok\<close> (\<open>serverOk\<close>).
\<close>

datatype delete_outcome = NothingSelected | CannotDelete | Cancelled | DeleteError | Deleted

definition firstKey :: "'v obj \<Rightarrow> string option" where
  "firstKey ob = (case obj_keys ob of [] \<Rightarrow> None | k # _ \<Rightarrow> Some k)"

definition deletePortfolio :: "tracker \<Rightarrow> bool \<Rightarrow> bool \<Rightarrow> delete_outcome \<times> tracker" where
  "deletePortfolio s confirmed serverOk =
     (case getCurrentPortfolio s of
        None \<Rightarrow> (NothingSelected, s)
      | Some portfolio \<Rightarrow>
          if length (obj_keys (portfolios s)) \<le> 1 then (CannotDelete, s)
          else if \<not> confirmed then (Cancelled, s)
          else if \<not> serverOk then (DeleteError, s)
          else
            let hs = foldl (\<lambda>ob i. obj_delete i ob) (holdings s) (holdingIds portfolio);
                ps = obj_delete (portfolio_id portfolio) (portfolios s)
            in (Deleted, s\<lparr>holdings := hs, portfolios := ps, currentPortfolioId := firstKey ps\<rparr>))"

section \<open>The localStorage front end\<close>

text \<open>
  The earlier front end keeps the holdings inside their portfolio and has no backend
  store. Its \<open>calculateHoldingMetrics\<close> and \<open>startPriceUpdates\<close> compute what those
  of frontend/src/App.js compute, statement by statement; the functions below are the
  ones that differ. The copy it writes to \<open>localStorage\<close> after each change is not
  modelled.
\<close>

record ls_portfolio =
  ls_id :: string
  ls_name :: string
  ls_holdings :: "holding list"

record ls_tracker =
  ls_portfolios :: "ls_portfolio obj"
  ls_currentPortfolioId :: "string option"
  ls_priceUpdateInterval :: "nat option"

definition getCurrentPortfolio_ls :: "ls_tracker \<Rightarrow> ls_portfolio option" where
  "getCurrentPortfolio_ls s =
     (case ls_currentPortfolioId s of None \<Rightarrow> None | Some i \<Rightarrow> obj_get (ls_portfolios s) i)"

definition addTotals_ls :: "jsnum \<times> jsnum \<Rightarrow> holding \<Rightarrow> jsnum \<times> jsnum" where
  "addTotals_ls acc h =
     (jsadd (fst acc) (jsmul (shares h) (currentPrice h)),
      jsadd (snd acc) (jsmul (shares h) (purchasePrice h)))"

definition calculatePortfolioTotals_ls :: "ls_portfolio \<Rightarrow> totals" where
  "calculatePortfolioTotals_ls p =
     (let (totalValue, totalCost) = foldl addTotals_ls (Fin 0, Fin 0) (ls_holdings p);
          totalGainLoss = jssub totalValue totalCost;
          totalGainLossPercent =
            (if jsgt totalCost (Fin 0) then jsmul (jsdiv totalGainLoss totalCost) (Fin 100)
             else Fin 0)
      in \<lparr>totalValue = totalValue, totalGainLoss = totalGainLoss,
          totalGainLossPercent = totalGainLossPercent\<rparr>)"

definition allHoldings_ls :: "ls_tracker \<Rightarrow> holding list" where
  "allHoldings_ls s = concat (map ls_holdings (obj_values (ls_portfolios s)))"

definition allSymbols_ls :: "ls_tracker \<Rightarrow> string list" where
  "allSymbols_ls s = newSet (map symbol (allHoldings_ls s))"

definition fetchRealTimePrices_request_ls :: "ls_tracker \<Rightarrow> string option" where
  "fetchRealTimePrices_request_ls s =
     (let syms = allSymbols_ls s in if length syms = 0 then None else Some (quotesUrl syms))"

definition fetchRealTimePrices_response_ls :: "ls_tracker \<Rightarrow> response \<Rightarrow> refresh_outcome \<times> ls_tracker" where
  "fetchRealTimePrices_response_ls s r =
     (case r of
        Prices prices \<Rightarrow>
          (Rendered,
           s\<lparr>ls_portfolios :=
                map (\<lambda>kv. (fst kv, (snd kv)\<lparr>ls_holdings := map (applyPrices prices) (ls_holdings (snd kv))\<rparr>))
                  (ls_portfolios s)\<rparr>)
      | _ \<Rightarrow> (ConsoleError, s))"

definition addStock_ls :: "ls_tracker \<Rightarrow> form \<Rightarrow> add_outcome \<times> ls_tracker" where
  "addStock_ls s f =
     (case ls_currentPortfolioId s of
        None \<Rightarrow> (NoPortfolio, s)
      | Some cur \<Rightarrow>
          (case obj_get (ls_portfolios s) cur of
             None \<Rightarrow> (NoPortfolio, s)
           | Some portfolio \<Rightarrow>
               let symb = enteredSymbol f;
                   shs = enteredShares f;
                   price = enteredPrice f;
                   date = purchaseDate_value f
               in if symb = [] \<or> falsy shs \<or> falsy price \<or> date = []
                     \<or> jsle shs (Fin 0) \<or> jslt price (Fin 0)
                  then (InvalidInput, s)
                  else if list_ex (\<lambda>h. symbol h = symb) (ls_holdings portfolio)
                  then (DuplicateStock, s)
                  else
                    let newHolding =
                          \<lparr>symbol = symb, shares = shs, purchasePrice = price,
                           purchaseDate = date, currentPrice = price\<rparr>
                    in (Added,
                        s\<lparr>ls_portfolios :=
                             obj_set cur
                               (portfolio\<lparr>ls_holdings := ls_holdings portfolio @ [newHolding]\<rparr>)
                               (ls_portfolios s)\<rparr>)))"

definition deletePortfolio_ls :: "ls_tracker \<Rightarrow> bool \<Rightarrow> delete_outcome \<times> ls_tracker" where
  "deletePortfolio_ls s confirmed =
     (case ls_currentPortfolioId s of
        None \<Rightarrow> (NothingSelected, s)
      | Some cur \<Rightarrow>
          (case obj_get (ls_portfolios s) cur of
             None \<Rightarrow> (NothingSelected, s)
           | Some portfolio \<Rightarrow>
               if length (obj_keys (ls_portfolios s)) \<le> 1 then (CannotDelete, s)
               else if \<not> confirmed then (Cancelled, s)
               else
                 let ps = obj_delete cur (ls_portfolios s)
                 in (Deleted, s\<lparr>ls_portfolios := ps, ls_currentPortfolioId := firstKey ps\<rparr>)))"

section \<open>The in-memory demo (src/app.js)\<close>

text \<open>
  The first version of the tracker: portfolios with their holdings, a table of price
  bands for the simulated prices, and the identity of the current portfolio. The timer
  handle and \<open>previousPortfolioValue\<close> play no part in \<open>addStock\<close> and are left out.
\<close>

record demo_tracker =
  demo_portfolios :: "ls_portfolio obj"
  priceRanges :: "(jsnum \<times> jsnum) obj"
  demo_currentPortfolioId :: string

definition addStock_demo :: "demo_tracker \<Rightarrow> form \<Rightarrow> add_outcome \<times> demo_tracker" where
  "addStock_demo s f =
     (let stockSymbol = enteredSymbol f in
      if \<not> symbolRegex stockSymbol then (InvalidSymbol, s)
      else
        let stock =
              \<lparr>symbol = stockSymbol, shares = enteredShares_demo f,
               purchasePrice = enteredPrice f,
               purchaseDate = purchaseDate_value f,
               currentPrice = enteredPrice f\<rparr>
        in if symbol stock = [] \<or> isNaN (shares stock) \<or> isNaN (purchasePrice stock)
              \<or> purchaseDate stock = []
           then (InvalidInput, s)
           else if jsle (shares stock) (Fin 0) \<or> jsle (purchasePrice stock) (Fin 0)
           then (NotPositive, s)
           else
             (case obj_get (demo_portfolios s) (demo_currentPortfolioId s) of
                None \<Rightarrow> (NoPortfolio, s)
              | Some portfolio \<Rightarrow>
                  (Added,
                   s\<lparr>demo_portfolios :=
                        obj_set (demo_currentPortfolioId s)
                          (portfolio\<lparr>ls_holdings := ls_holdings portfolio @ [stock]\<rparr>)
                          (demo_portfolios s),
                      priceRanges :=
                        (case obj_get (priceRanges s) (symbol stock) of
                           Some _ \<Rightarrow> priceRanges s
                         | None \<Rightarrow>
                             obj_set (symbol stock)
                               (jsmul (purchasePrice stock) (Fin 0.9),
                                jsmul (purchasePrice stock) (Fin 1.1))
                               (priceRanges s))\<rparr>)))"

section \<open>The quotes endpoint (backend/server.js)\<close>

text \<open>
  The request. \<open>req.query.symbols\<close> is what Express reads from the URL: the URL
  that is sent ends before \<open>#\<close> (a fragment is not sent), the query starts after the
  first \<open>?\<close>, its parameters
  are separated by \<open>&\<close>, and the name of a parameter ends at its first \<open>=\<close>. One
  parameter \<open>symbols\<close> gives its value as a string, several give an array, none gives
  \<open>undefined\<close>. Percent escapes, \<open>+\<close> and bracketed parameter names are not
  modelled: every other character is taken to arrive as it was sent.
\<close>

datatype query_value = Missing | Single string | Several

definition queryString :: "string \<Rightarrow> string" where
  "queryString url =
     drop 1 (dropWhile (\<lambda>c. c \<noteq> CHR ''?'') (takeWhile (\<lambda>c. c \<noteq> CHR ''#'') url))"

definition req_query_symbols :: "string \<Rightarrow> query_value" where
  "req_query_symbols url =
     (case filter (\<lambda>kv. takeWhile (\<lambda>c. c \<noteq> CHR ''='') kv = ''symbols'')
             (split_on (CHR ''&'') (queryString url)) of
        [] \<Rightarrow> Missing
      | [kv] \<Rightarrow> Single (drop 1 (dropWhile (\<lambda>c. c \<noteq> CHR ''='') kv))
      | _ \<Rightarrow> Several)"

text \<open>
  What the endpoint does with the request, with the account and the access token in
  place: status 400 when \<open>symbols\<close> is missing or empty; otherwise the instruments it
  posts to the upstream quote service, \<open>symbols.split(',')\<close> with each symbol in upper
  case, given here by their symbols. An array has no \<open>split\<close>: the exception is caught
  and the status is 500.
\<close>

datatype quotes_call = BadRequest | ServerError | Upstream "string list"

definition quotesInstruments :: "string \<Rightarrow> quotes_call" where
  "quotesInstruments url =
     (case req_query_symbols url of
        Missing \<Rightarrow> BadRequest
      | Single symbols \<Rightarrow>
          if symbols = [] then BadRequest
          else Upstream (map toUpperCase (split_on (CHR '','') symbols))
      | Several \<Rightarrow> ServerError)"

text \<open>
  A quote of the upstream answer, as far as the endpoint reads it: \<open>quote.instrument\<close>
  with its \<open>symbol\<close>, and \<open>quote.last\<close>. \<open>None\<close> is a property that is missing.
  \<open>parseFloat\<close> converts its argument to a string first, so \<open>last\<close> is kept as a
  string, and a missing \<open>last\<close> parses to NaN.
\<close>

record instrument =
  instrument_symbol :: "string option"

record quote =
  quote_instrument :: "instrument option"
  quote_last :: "string option"

text \<open>\<open>quote.instrument?.symbol\<close>\<close>

definition quoteSymbol :: "quote \<Rightarrow> string option" where
  "quoteSymbol q = (case quote_instrument q of None \<Rightarrow> None | Some i \<Rightarrow> instrument_symbol i)"

definition quotePrice :: "quote \<Rightarrow> jsnum" where
  "quotePrice q = (case quote_last q of None \<Rightarrow> NaN | Some str \<Rightarrow> parseFloat str)"

text \<open>
  The body of \<open>response.data.quotes.forEach\<close>; a symbol is truthy when it is not
  empty. The object \<open>prices\<close> is given by its own keys: assigning a number to
  \<open>__proto__\<close> adds none.
\<close>

definition addQuote :: "(string \<rightharpoonup> jsnum) \<Rightarrow> quote \<Rightarrow> (string \<rightharpoonup> jsnum)" where
  "addQuote prices q =
     (let price = quotePrice q in
      case quoteSymbol q of
        None \<Rightarrow> prices
      | Some symb \<Rightarrow>
          if symb \<noteq> [] \<and> \<not> isNaN price
          then (if symb = ''__proto__'' then prices else prices(symb \<mapsto> price))
          else prices)"

text \<open>
  The object \<open>prices\<close> when the \<open>forEach\<close> is done; \<open>None\<close> is an upstream answer
  without a \<open>quotes\<close> array.
\<close>

definition quotesToPrices :: "quote list option \<Rightarrow> (string \<rightharpoonup> jsnum)" where
  "quotesToPrices quotes =
     (case quotes of None \<Rightarrow> Map.empty | Some qs \<Rightarrow> foldl addQuote Map.empty qs)"

text \<open>
  \<open>res.json(prices)\<close> sends the object as JSON text. JSON has no infinity and no NaN:
  \<open>JSON.stringify\<close> writes \<open>null\<close> for a number that is not finite. The mapping the
  endpoint returns is therefore from symbols to numbers or \<open>null\<close>.
\<close>

datatype json_price = JNumber rat | JNull

definition toJSON :: "jsnum \<Rightarrow> json_price" where
  "toJSON x = (case x of Fin a \<Rightarrow> JNumber a | _ \<Rightarrow> JNull)"

definition res_json :: "(string \<rightharpoonup> jsnum) \<Rightarrow> (string \<rightharpoonup> json_price)" where
  "res_json prices = (\<lambda>symb. map_option toJSON (prices symb))"

definition quotesResponse :: "quote list option \<Rightarrow> (string \<rightharpoonup> json_price)" where
  "quotesResponse quotes = res_json (quotesToPrices quotes)"

section \<open>Sample data\<close>

text \<open>The first holding of the demo's seed data, and a holding with a cost basis of zero.\<close>

definition aapl :: holding where
  "aapl = \<lparr>symbol = ''AAPL'', shares = Fin 50, purchasePrice = Fin 150.25,
     purchaseDate = ''2024-01-15'', currentPrice = Fin 175.30\<rparr>"

definition gifted :: holding where
  "gifted = \<lparr>symbol = ''GIFT'', shares = Fin 10, purchasePrice = Fin 0,
     purchaseDate = ''2024-03-01'', currentPrice = Fin 12.5\<rparr>"

text \<open>
  A tracker of the API-backed front end with two portfolios; \<open>AAPL\<close> is held in both.
\<close>

definition h1 :: api_holding where
  "h1 = \<lparr>symbol = ''AAPL'', shares = Fin 50, purchasePrice = Fin 150.25,
     purchaseDate = ''2024-01-15'', currentPrice = Fin 175.30, holding_id = ''h1''\<rparr>"

definition h2 :: api_holding where
  "h2 = \<lparr>symbol = ''KO'', shares = Fin 100, purchasePrice = Fin 58.20,
     purchaseDate = ''2024-01-10'', currentPrice = Fin 61.45, holding_id = ''h2''\<rparr>"

definition h3 :: api_holding where
  "h3 = \<lparr>symbol = ''AAPL'', shares = Fin 5, purchasePrice = Fin 160,
     purchaseDate = ''2024-02-01'', currentPrice = Fin 175.30, holding_id = ''h3''\<rparr>"

definition tech :: portfolio where
  "tech = \<lparr>portfolio_id = ''p1'', name = ''Tech Growth Portfolio'', holdingIds = [''h1'']\<rparr>"

definition dividend :: portfolio where
  "dividend = \<lparr>portfolio_id = ''p2'', name = ''Dividend Income Portfolio'',
     holdingIds = [''h2'', ''h3'']\<rparr>"

definition tracker0 :: tracker where
  "tracker0 = \<lparr>portfolios = [(''p1'', tech), (''p2'', dividend)],
     holdings = [(''h1'', h1), (''h2'', h2), (''h3'', h3)],
     currentPortfolioId = Some ''p1'', priceUpdateInterval = None\<rparr>"

text \<open>A tracker whose only portfolio is empty, as after the first \<open>createPortfolio\<close>.\<close>

definition tracker1 :: tracker where
  "tracker1 = \<lparr>portfolios = [(''p1'', tech\<lparr>holdingIds := []\<rparr>)], holdings = [],
     currentPortfolioId = Some ''p1'', priceUpdateInterval = None\<rparr>"

definition browser0 :: browser where
  "browser0 = \<lparr>app = tracker0, timers = [], nextTimer = 0, inFlight = []\<rparr>"

definition browser1 :: browser where
  "browser1 = \<lparr>app = tracker1, timers = [], nextTimer = 0, inFlight = []\<rparr>"

text \<open>The same holdings in the localStorage front end.\<close>

definition ko :: holding where
  "ko = \<lparr>symbol = ''KO'', shares = Fin 100, purchasePrice = Fin 58.20,
     purchaseDate = ''2024-01-10'', currentPrice = Fin 61.45\<rparr>"

definition ls_tech :: ls_portfolio where
  "ls_tech = \<lparr>ls_id = ''portfolio-1'', ls_name = ''Tech'', ls_holdings = [aapl]\<rparr>"

definition ls_income :: ls_portfolio where
  "ls_income = \<lparr>ls_id = ''portfolio-2'', ls_name = ''Income'', ls_holdings = [ko, aapl]\<rparr>"

definition ls_tracker0 :: ls_tracker where
  "ls_tracker0 =
     \<lparr>ls_portfolios = [(''portfolio-1'', ls_tech), (''portfolio-2'', ls_income)],
      ls_currentPortfolioId = Some ''portfolio-1'', ls_priceUpdateInterval = None\<rparr>"

definition ls_tracker1 :: ls_tracker where
  "ls_tracker1 =
     \<lparr>ls_portfolios =
        [(''portfolio-1'', \<lparr>ls_id = ''portfolio-1'', ls_name = ''My First Portfolio'', ls_holdings = []\<rparr>)],
      ls_currentPortfolioId = Some ''portfolio-1'', ls_priceUpdateInterval = None\<rparr>"

text \<open>A price object with a price for \<open>AAPL\<close> only.\<close>

definition prices0 :: "string \<rightharpoonup> jsnum" where
  "prices0 = [''AAPL'' \<mapsto> Fin 180.10]"

text \<open>
  An upstream answer with a good quote, a quote without instrument, a quote whose price
  does not parse, and a quote whose price is the string \<open>Infinity\<close>.
\<close>

definition quote_aapl :: quote where
  "quote_aapl = \<lparr>quote_instrument = Some \<lparr>instrument_symbol = Some ''AAPL''\<rparr>,
     quote_last = Some ''175.30''\<rparr>"

definition quote_anonymous :: quote where
  "quote_anonymous = \<lparr>quote_instrument = None, quote_last = Some ''10''\<rparr>"

definition quote_unpriced :: quote where
  "quote_unpriced = \<lparr>quote_instrument = Some \<lparr>instrument_symbol = Some ''KO''\<rparr>,
     quote_last = Some ''n/a''\<rparr>"

definition quote_infinite :: quote where
  "quote_infinite = \<lparr>quote_instrument = Some \<lparr>instrument_symbol = Some ''MSFT''\<rparr>,
     quote_last = Some ''Infinity''\<rparr>"

text \<open>
  The demo with the first portfolio and the first holding of its seed data, and three
  fillings of the form: a new symbol typed in lower case, a purchase price of zero, and a
  symbol that is already held.
\<close>

definition demo0 :: demo_tracker where
  "demo0 =
     \<lparr>demo_portfolios =
        [(''tech-growth'',
          \<lparr>ls_id = ''tech-growth'', ls_name = ''Tech Growth Portfolio'', ls_holdings = [aapl]\<rparr>)],
      priceRanges = [(''AAPL'', (Fin 170, Fin 180))],
      demo_currentPortfolioId = ''tech-growth''\<rparr>"

definition form_msft :: form where
  "form_msft = \<lparr>stockSymbol_value = ''msft '', shares_value = ''30'',
     purchasePrice_value = ''280.00'', purchaseDate_value = ''2024-02-01''\<rparr>"

definition form_gift :: form where
  "form_gift = \<lparr>stockSymbol_value = ''GIFT'', shares_value = ''10'',
     purchasePrice_value = ''0'', purchaseDate_value = ''2024-03-01''\<rparr>"

definition form_aapl :: form where
  "form_aapl = \<lparr>stockSymbol_value = ''AAPL'', shares_value = ''5'',
     purchasePrice_value = ''160'', purchaseDate_value = ''2024-02-01''\<rparr>"

text \<open>
  A portfolio that holds the symbols \<open>A,B\<close> and \<open>A\<close>, and the two fillings of the form
  that put them there.
\<close>

definition form_ab :: form where
  "form_ab = \<lparr>stockSymbol_value = ''a,b'', shares_value = ''1'',
     purchasePrice_value = ''10'', purchaseDate_value = ''2024-03-01''\<rparr>"

definition form_a :: form where
  "form_a = \<lparr>stockSymbol_value = ''a'', shares_value = ''1'',
     purchasePrice_value = ''10'', purchaseDate_value = ''2024-03-01''\<rparr>"

definition held_ab :: api_holding where
  "held_ab = \<lparr>symbol = ''A,B'', shares = Fin 1, purchasePrice = Fin 10,
     purchaseDate = ''2024-03-01'', currentPrice = Fin 10, holding_id = ''h1''\<rparr>"

definition held_a :: api_holding where
  "held_a = \<lparr>symbol = ''A'', shares = Fin 1, purchasePrice = Fin 10,
     purchaseDate = ''2024-03-01'', currentPrice = Fin 10, holding_id = ''h2''\<rparr>"

definition tracker2 :: tracker where
  "tracker2 = \<lparr>portfolios = [(''p1'', tech\<lparr>holdingIds := [''h1'', ''h2'']\<rparr>)],
     holdings = [(''h1'', held_ab), (''h2'', held_a)],
     currentPortfolioId = Some ''p1'', priceUpdateInterval = None\<rparr>"

text \<open>The same two holdings in the localStorage front end.\<close>

definition ls_tracker2 :: ls_tracker where
  "ls_tracker2 =
     \<lparr>ls_portfolios =
        [(''portfolio-1'',
          \<lparr>ls_id = ''portfolio-1'', ls_name = ''My First Portfolio'',
           ls_holdings =
             [\<lparr>symbol = ''A,B'', shares = Fin 1, purchasePrice = Fin 10,
               purchaseDate = ''2024-03-01'', currentPrice = Fin 10\<rparr>,
              \<lparr>symbol = ''A'', shares = Fin 1, purchasePrice = Fin 10,
               purchaseDate = ''2024-03-01'', currentPrice = Fin 10\<rparr>]\<rparr>)],
      ls_currentPortfolioId = Some ''portfolio-1'', ls_priceUpdateInterval = None\<rparr>"

text \<open>A filling of the form with the symbol \<open>AT&T\<close>.\<close>

definition form_att :: form where
  "form_att = \<lparr>stockSymbol_value = ''at&t'', shares_value = ''1'',
     purchasePrice_value = ''10'', purchaseDate_value = ''2024-03-01''\<rparr>"


section \<open>Properties of the metrics calculator\<close>

lemma gainLossPercent_zero_price:
  "purchasePrice h = Fin 0 \<Longrightarrow> gainLossPercent (calculateHoldingMetrics h) = Fin 0"
  by (cases "shares h") (simp_all add: calculateHoldingMetrics_def Let_def)

lemma calculateHoldingMetrics_finite:
  assumes "shares h = Fin n" and "purchasePrice h = Fin p" and "currentPrice h = Fin c"
  shows "calculateHoldingMetrics h =
     \<lparr>marketValue = Fin (n * c), metrics.totalGainLoss = Fin (n * c - n * p),
      gainLossPercent = (if 0 < n * p then Fin ((n * c - n * p) / (n * p) * 100) else Fin 0)\<rparr>"
  using assms by (simp add: calculateHoldingMetrics_def Let_def jssub_def)

lemma createTableRow_demo_agrees:
  "jsgt (jsmul (shares h) (purchasePrice h)) (Fin 0) \<Longrightarrow>
   createTableRow_demo h = calculateHoldingMetrics h"
  by (simp add: calculateHoldingMetrics_def createTableRow_demo_def Let_def)

section \<open>Properties of the portfolio totals\<close>

lemma jsadd_assoc: "jsadd (jsadd a b) c = jsadd a (jsadd b c)"
  by (cases a; cases b; cases c) simp_all

lemma jsadd_zero_left: "jsadd (Fin 0) a = a"
  by (cases a) simp_all

lemma jsadd_zero_right: "jsadd a (Fin 0) = a"
  by (cases a) simp_all

lemma foldl_addHoldingTotals:
  "foldl (addHoldingTotals hs) acc ids =
     (jsadd (fst acc) (jssum (map (\<lambda>h. jsmul (shares h) (currentPrice h))
                               (List.map_filter (obj_get hs) ids))),
      jsadd (snd acc) (jssum (map (\<lambda>h. jsmul (shares h) (purchasePrice h))
                               (List.map_filter (obj_get hs) ids))))"
proof (induction ids arbitrary: acc)
  case Nil
  then show ?case by (simp add: List.map_filter_simps jsadd_zero_right)
next
  case (Cons i ids)
  then show ?case
    by (cases "obj_get hs i") (simp_all add: List.map_filter_simps addHoldingTotals_def jsadd_assoc)
qed

lemma foldl_addTotals_ls:
  "foldl addTotals_ls acc hs =
     (jsadd (fst acc) (jssum (map (\<lambda>h. jsmul (shares h) (currentPrice h)) hs)),
      jsadd (snd acc) (jssum (map (\<lambda>h. jsmul (shares h) (purchasePrice h)) hs)))"
  by (induction hs arbitrary: acc) (simp_all add: addTotals_ls_def jsadd_assoc jsadd_zero_right)

lemma jssum_finite:
  "\<forall>h \<in> set hs. isFinite (f h) \<and> isFinite (g h) \<Longrightarrow>
   jssum (map (\<lambda>h. jsmul (f h) (g h)) hs) = Fin (\<Sum>h\<leftarrow>hs. fin_of (f h) * fin_of (g h))"
proof (induction hs)
  case Nil
  then show ?case by simp
next
  case (Cons h hs)
  then obtain a b where "f h = Fin a" "g h = Fin b"
    by (auto simp: isFinite_def split: jsnum.splits)
  with Cons show ?case by simp
qed

lemma calculatePortfolioTotals_sums:
  "calculatePortfolioTotals s p =
     (let v = jssum (map (\<lambda>h. jsmul (shares h) (currentPrice h)) (portfolioHoldings s p));
          c = jssum (map (\<lambda>h. jsmul (shares h) (purchasePrice h)) (portfolioHoldings s p))
      in \<lparr>totalValue = v, totalGainLoss = jssub v c,
          totalGainLossPercent =
            (if jsgt c (Fin 0) then jsmul (jsdiv (jssub v c) c) (Fin 100) else Fin 0)\<rparr>)"
  by (simp add: calculatePortfolioTotals_def foldl_addHoldingTotals portfolioHoldings_def
      jsadd_zero_left Let_def)

lemma calculatePortfolioTotals_ls_sums:
  "calculatePortfolioTotals_ls q =
     (let v = jssum (map (\<lambda>h. jsmul (shares h) (currentPrice h)) (ls_holdings q));
          c = jssum (map (\<lambda>h. jsmul (shares h) (purchasePrice h)) (ls_holdings q))
      in \<lparr>totalValue = v, totalGainLoss = jssub v c,
          totalGainLossPercent =
            (if jsgt c (Fin 0) then jsmul (jsdiv (jssub v c) c) (Fin 100) else Fin 0)\<rparr>)"
  by (simp add: calculatePortfolioTotals_ls_def foldl_addTotals_ls jsadd_zero_left Let_def)

text \<open>
  C6. For every portfolio, \<open>calculatePortfolioTotals\<close> returns as totalValue the sum of
  shares times currentPrice over the holdings of the portfolio, as totalGainLoss that
  total minus the sum of shares times purchasePrice, and as totalGainLossPercent
  (totalGainLoss / summed cost) times 100 when the summed cost is positive and 0
  otherwise. When the numbers of the holdings are finite, the three results are the
  values of the corresponding sums of rationals. This holds for the API-backed front end
  (the holdings are those the identities of the portfolio resolve to) and for the
  localStorage front end.
\<close>

theorem portfolio_totals_are_sums:
  "totalValue (calculatePortfolioTotals s p)
     = jssum (map (\<lambda>h. jsmul (shares h) (currentPrice h)) (portfolioHoldings s p))
   \<and> totalGainLoss (calculatePortfolioTotals s p)
     = jssub (totalValue (calculatePortfolioTotals s p))
         (jssum (map (\<lambda>h. jsmul (shares h) (purchasePrice h)) (portfolioHoldings s p)))
   \<and> totalGainLossPercent (calculatePortfolioTotals s p)
     = (if jsgt (jssum (map (\<lambda>h. jsmul (shares h) (purchasePrice h)) (portfolioHoldings s p))) (Fin 0)
        then jsmul (jsdiv (totalGainLoss (calculatePortfolioTotals s p))
                     (jssum (map (\<lambda>h. jsmul (shares h) (purchasePrice h)) (portfolioHoldings s p))))
               (Fin 100)
        else Fin 0)
   \<and> ((\<forall>h \<in> set (portfolioHoldings s p).
          isFinite (shares h) \<and> isFinite (currentPrice h) \<and> isFinite (purchasePrice h)) \<longrightarrow>
       (\<forall>V C. V = (\<Sum>h\<leftarrow>portfolioHoldings s p. fin_of (shares h) * fin_of (currentPrice h))
            \<and> C = (\<Sum>h\<leftarrow>portfolioHoldings s p. fin_of (shares h) * fin_of (purchasePrice h)) \<longrightarrow>
          calculatePortfolioTotals s p =
            \<lparr>totalValue = Fin V, totalGainLoss = Fin (V - C),
             totalGainLossPercent = (if 0 < C then Fin ((V - C) / C * 100) else Fin 0)\<rparr>))
   \<and> totalValue (calculatePortfolioTotals_ls q)
     = jssum (map (\<lambda>h. jsmul (shares h) (currentPrice h)) (ls_holdings q))
   \<and> totalGainLoss (calculatePortfolioTotals_ls q)
     = jssub (totalValue (calculatePortfolioTotals_ls q))
         (jssum (map (\<lambda>h. jsmul (shares h) (purchasePrice h)) (ls_holdings q)))
   \<and> totalGainLossPercent (calculatePortfolioTotals_ls q)
     = (if jsgt (jssum (map (\<lambda>h. jsmul (shares h) (purchasePrice h)) (ls_holdings q))) (Fin 0)
        then jsmul (jsdiv (totalGainLoss (calculatePortfolioTotals_ls q))
                     (jssum (map (\<lambda>h. jsmul (shares h) (purchasePrice h)) (ls_holdings q))))
               (Fin 100)
        else Fin 0)
   \<and> ((\<forall>h \<in> set (ls_holdings q).
          isFinite (shares h) \<and> isFinite (currentPrice h) \<and> isFinite (purchasePrice h)) \<longrightarrow>
       (\<forall>V C. V = (\<Sum>h\<leftarrow>ls_holdings q. fin_of (shares h) * fin_of (currentPrice h))
            \<and> C = (\<Sum>h\<leftarrow>ls_holdings q. fin_of (shares h) * fin_of (purchasePrice h)) \<longrightarrow>
          calculatePortfolioTotals_ls q =
            \<lparr>totalValue = Fin V, totalGainLoss = Fin (V - C),
             totalGainLossPercent = (if 0 < C then Fin ((V - C) / C * 100) else Fin 0)\<rparr>))"
proof -
  have a: "totalValue (calculatePortfolioTotals s p)
     = jssum (map (\<lambda>h. jsmul (shares h) (currentPrice h)) (portfolioHoldings s p))"
    by (simp add: calculatePortfolioTotals_sums Let_def)
  have b: "totalGainLoss (calculatePortfolioTotals s p)
     = jssub (totalValue (calculatePortfolioTotals s p))
         (jssum (map (\<lambda>h. jsmul (shares h) (purchasePrice h)) (portfolioHoldings s p)))"
    by (simp add: calculatePortfolioTotals_sums Let_def)
  have c: "totalGainLossPercent (calculatePortfolioTotals s p)
     = (if jsgt (jssum (map (\<lambda>h. jsmul (shares h) (purchasePrice h)) (portfolioHoldings s p))) (Fin 0)
        then jsmul (jsdiv (totalGainLoss (calculatePortfolioTotals s p))
                     (jssum (map (\<lambda>h. jsmul (shares h) (purchasePrice h)) (portfolioHoldings s p))))
               (Fin 100)
        else Fin 0)"
    by (simp add: calculatePortfolioTotals_sums Let_def)
  have d: "calculatePortfolioTotals s p =
            \<lparr>totalValue = Fin V, totalGainLoss = Fin (V - C),
             totalGainLossPercent = (if 0 < C then Fin ((V - C) / C * 100) else Fin 0)\<rparr>"
    if "\<forall>h \<in> set (portfolioHoldings s p).
          isFinite (shares h) \<and> isFinite (currentPrice h) \<and> isFinite (purchasePrice h)"
      and "V = (\<Sum>h\<leftarrow>portfolioHoldings s p. fin_of (shares h) * fin_of (currentPrice h))"
      and "C = (\<Sum>h\<leftarrow>portfolioHoldings s p. fin_of (shares h) * fin_of (purchasePrice h))"
    for V C
  proof -
    have v: "jssum (map (\<lambda>h. jsmul (shares h) (currentPrice h)) (portfolioHoldings s p)) = Fin V"
      using that(1,2) jssum_finite [of "portfolioHoldings s p" shares currentPrice] by simp
    have c: "jssum (map (\<lambda>h. jsmul (shares h) (purchasePrice h)) (portfolioHoldings s p)) = Fin C"
      using that(1,3) jssum_finite [of "portfolioHoldings s p" shares purchasePrice] by simp
    show ?thesis
      by (simp add: calculatePortfolioTotals_sums Let_def v c jssub_def)
  qed
  have a': "totalValue (calculatePortfolioTotals_ls q)
     = jssum (map (\<lambda>h. jsmul (shares h) (currentPrice h)) (ls_holdings q))"
    by (simp add: calculatePortfolioTotals_ls_sums Let_def)
  have b': "totalGainLoss (calculatePortfolioTotals_ls q)
     = jssub (totalValue (calculatePortfolioTotals_ls q))
         (jssum (map (\<lambda>h. jsmul (shares h) (purchasePrice h)) (ls_holdings q)))"
    by (simp add: calculatePortfolioTotals_ls_sums Let_def)
  have c': "totalGainLossPercent (calculatePortfolioTotals_ls q)
     = (if jsgt (jssum (map (\<lambda>h. jsmul (shares h) (purchasePrice h)) (ls_holdings q))) (Fin 0)
        then jsmul (jsdiv (totalGainLoss (calculatePortfolioTotals_ls q))
                     (jssum (map (\<lambda>h. jsmul (shares h) (purchasePrice h)) (ls_holdings q))))
               (Fin 100)
        else Fin 0)"
    by (simp add: calculatePortfolioTotals_ls_sums Let_def)
  have d': "calculatePortfolioTotals_ls q =
            \<lparr>totalValue = Fin V, totalGainLoss = Fin (V - C),
             totalGainLossPercent = (if 0 < C then Fin ((V - C) / C * 100) else Fin 0)\<rparr>"
    if "\<forall>h \<in> set (ls_holdings q).
          isFinite (shares h) \<and> isFinite (currentPrice h) \<and> isFinite (purchasePrice h)"
      and "V = (\<Sum>h\<leftarrow>ls_holdings q. fin_of (shares h) * fin_of (currentPrice h))"
      and "C = (\<Sum>h\<leftarrow>ls_holdings q. fin_of (shares h) * fin_of (purchasePrice h))"
    for V C
  proof -
    have v: "jssum (map (\<lambda>h. jsmul (shares h) (currentPrice h)) (ls_holdings q)) = Fin V"
      using that(1,2) jssum_finite [of "ls_holdings q" shares currentPrice] by simp
    have c: "jssum (map (\<lambda>h. jsmul (shares h) (purchasePrice h)) (ls_holdings q)) = Fin C"
      using that(1,3) jssum_finite [of "ls_holdings q" shares purchasePrice] by simp
    show ?thesis
      by (simp add: calculatePortfolioTotals_ls_sums Let_def v c jssub_def)
  qed
  from a b c d a' b' c' d' show ?thesis by blast
qed

theorem portfolio_totals_are_sums_witness:
  "portfolioHoldings tracker0 dividend = [h2, h3]
   \<and> list_all (\<lambda>h. isFinite (shares h) \<and> isFinite (currentPrice h) \<and> isFinite (purchasePrice h))
        (portfolioHoldings tracker0 dividend)
   \<and> calculatePortfolioTotals tracker0 dividend =
       \<lparr>totalValue = Fin 7021.5, totalGainLoss = Fin 401.5,
        totalGainLossPercent = Fin (4015 / 662)\<rparr>
   \<and> list_all (\<lambda>h. isFinite (shares h) \<and> isFinite (currentPrice h) \<and> isFinite (purchasePrice h))
        (ls_holdings ls_income)
   \<and> calculatePortfolioTotals_ls ls_income =
       \<lparr>totalValue = Fin 14910, totalGainLoss = Fin 1577.5,
        totalGainLossPercent = Fin (63100 / 5333)\<rparr>"
proof -
  note T = portfolio_totals_are_sums [of tracker0 dividend ls_income]
  have ph: "portfolioHoldings tracker0 dividend = [h2, h3]"
    by (simp add: portfolioHoldings_def List.map_filter_simps obj_get_def tracker0_def dividend_def)
  have f: "\<forall>h \<in> set (portfolioHoldings tracker0 dividend).
         isFinite (shares h) \<and> isFinite (currentPrice h) \<and> isFinite (purchasePrice h)"
    by (simp add: ph h2_def h3_def isFinite_def)
  have f': "\<forall>h \<in> set (ls_holdings ls_income).
         isFinite (shares h) \<and> isFinite (currentPrice h) \<and> isFinite (purchasePrice h)"
    by (simp add: ls_income_def ko_def aapl_def isFinite_def)
  have V: "(\<Sum>h\<leftarrow>portfolioHoldings tracker0 dividend. fin_of (shares h) * fin_of (currentPrice h)) = 7021.5"
    "(\<Sum>h\<leftarrow>portfolioHoldings tracker0 dividend. fin_of (shares h) * fin_of (purchasePrice h)) = 6620"
    by (simp_all add: ph h2_def h3_def)
  have V': "(\<Sum>h\<leftarrow>ls_holdings ls_income. fin_of (shares h) * fin_of (currentPrice h)) = 14910"
    "(\<Sum>h\<leftarrow>ls_holdings ls_income. fin_of (shares h) * fin_of (purchasePrice h)) = 13332.5"
    by (simp_all add: ls_income_def ko_def aapl_def)
  from T f have "calculatePortfolioTotals tracker0 dividend =
       \<lparr>totalValue = Fin (\<Sum>h\<leftarrow>portfolioHoldings tracker0 dividend. fin_of (shares h) * fin_of (currentPrice h)),
        totalGainLoss =
          Fin ((\<Sum>h\<leftarrow>portfolioHoldings tracker0 dividend. fin_of (shares h) * fin_of (currentPrice h))
               - (\<Sum>h\<leftarrow>portfolioHoldings tracker0 dividend. fin_of (shares h) * fin_of (purchasePrice h))),
        totalGainLossPercent =
          (if 0 < (\<Sum>h\<leftarrow>portfolioHoldings tracker0 dividend. fin_of (shares h) * fin_of (purchasePrice h))
           then Fin (((\<Sum>h\<leftarrow>portfolioHoldings tracker0 dividend. fin_of (shares h) * fin_of (currentPrice h))
                      - (\<Sum>h\<leftarrow>portfolioHoldings tracker0 dividend. fin_of (shares h) * fin_of (purchasePrice h)))
                     / (\<Sum>h\<leftarrow>portfolioHoldings tracker0 dividend. fin_of (shares h) * fin_of (purchasePrice h))
                     * 100)
           else Fin 0)\<rparr>"
    by blast
  then have a: "calculatePortfolioTotals tracker0 dividend =
       \<lparr>totalValue = Fin 7021.5, totalGainLoss = Fin 401.5,
        totalGainLossPercent = Fin (4015 / 662)\<rparr>"
    unfolding V by simp
  from T f' have "calculatePortfolioTotals_ls ls_income =
       \<lparr>totalValue = Fin (\<Sum>h\<leftarrow>ls_holdings ls_income. fin_of (shares h) * fin_of (currentPrice h)),
        totalGainLoss =
          Fin ((\<Sum>h\<leftarrow>ls_holdings ls_income. fin_of (shares h) * fin_of (currentPrice h))
               - (\<Sum>h\<leftarrow>ls_holdings ls_income. fin_of (shares h) * fin_of (purchasePrice h))),
        totalGainLossPercent =
          (if 0 < (\<Sum>h\<leftarrow>ls_holdings ls_income. fin_of (shares h) * fin_of (purchasePrice h))
           then Fin (((\<Sum>h\<leftarrow>ls_holdings ls_income. fin_of (shares h) * fin_of (currentPrice h))
                      - (\<Sum>h\<leftarrow>ls_holdings ls_income. fin_of (shares h) * fin_of (purchasePrice h)))
                     / (\<Sum>h\<leftarrow>ls_holdings ls_income. fin_of (shares h) * fin_of (purchasePrice h))
                     * 100)
           else Fin 0)\<rparr>"
    by blast
  then have b: "calculatePortfolioTotals_ls ls_income =
       \<lparr>totalValue = Fin 14910, totalGainLoss = Fin 1577.5,
        totalGainLossPercent = Fin (63100 / 5333)\<rparr>"
    unfolding V' by simp
  from ph f f' a b show ?thesis by (simp add: list_all_iff)
qed

section \<open>Properties of the price refresh\<close>

lemma foldl_setAdd_set: "set (foldl setAdd acc xs) = set acc \<union> set xs"
  by (induction xs arbitrary: acc) (auto simp: setAdd_def)

lemma foldl_setAdd_distinct: "distinct acc \<Longrightarrow> distinct (foldl setAdd acc xs)"
  by (induction xs arbitrary: acc) (auto simp: setAdd_def)

lemma set_newSet: "set (newSet xs) = set xs"
  by (simp add: newSet_def foldl_setAdd_set)

lemma distinct_newSet: "distinct (newSet xs)"
  by (simp add: newSet_def foldl_setAdd_distinct)

lemma newSet_Nil_iff: "newSet xs = [] \<longleftrightarrow> xs = []"
  using set_newSet [of xs] by (metis set_empty)

lemmas sample_defs =
  tracker0_def tracker1_def h1_def h2_def h3_def tech_def dividend_def browser0_def browser1_def
  ls_tracker0_def ls_tracker1_def ls_tech_def ls_income_def aapl_def ko_def prices0_def

lemma quotesUrl_sample: "quotesUrl [''AAPL'', ''KO''] = ''/api/quotes?symbols=AAPL,KO''"
  by (simp add: quotesUrl_def)

lemma request_tracker0:
  "fetchRealTimePrices_request tracker0 = Some ''/api/quotes?symbols=AAPL,KO''"
  by (simp add: fetchRealTimePrices_request_def allSymbols_def newSet_def setAdd_def
      obj_values_def quotesUrl_def sample_defs)

lemma request_ls_tracker0:
  "fetchRealTimePrices_request_ls ls_tracker0 = Some ''/api/quotes?symbols=AAPL,KO''"
  by (simp add: fetchRealTimePrices_request_ls_def allSymbols_ls_def allHoldings_ls_def
      newSet_def setAdd_def obj_values_def quotesUrl_def sample_defs)

text \<open>
  The array handed to \<open>join\<close> holds the symbols of the holdings, each once, and
  without a holding no call is issued.
\<close>

lemma allSymbols_once:
  "distinct (allSymbols s) \<and> set (allSymbols s) = symbol ` snd ` set (holdings s)
   \<and> distinct (allSymbols_ls t) \<and> set (allSymbols_ls t) = symbol ` set (allHoldings_ls t)"
  by (auto simp: allSymbols_def allSymbols_ls_def distinct_newSet set_newSet obj_values_def)

lemma request_None_iff:
  "(fetchRealTimePrices_request s = None \<longleftrightarrow> holdings s = [])
   \<and> (fetchRealTimePrices_request_ls t = None \<longleftrightarrow> allHoldings_ls t = [])"
  by (simp add: fetchRealTimePrices_request_def fetchRealTimePrices_request_ls_def Let_def
      allSymbols_def allSymbols_ls_def newSet_Nil_iff obj_values_def)

lemma no_holding_no_call: "holdings (app b) = [] \<Longrightarrow> callFetchRealTimePrices b = b"
  using request_None_iff [of "app b"] by (simp add: callFetchRealTimePrices_def)

lemma applyPrices_frame:
  "symbol (applyPrices prices h) = symbol h \<and> shares (applyPrices prices h) = shares h
   \<and> purchasePrice (applyPrices prices h) = purchasePrice h
   \<and> purchaseDate (applyPrices prices h) = purchaseDate h
   \<and> holding.more (applyPrices prices h) = holding.more h"
  by (simp add: applyPrices_def split: option.split)

lemma applyPrices_present:
  "prices (symbol h) = Some v \<Longrightarrow> currentPrice (applyPrices prices h) = v"
  by (simp add: applyPrices_def)

lemma applyPrices_absent: "prices (symbol h) = None \<Longrightarrow> applyPrices prices h = h"
  by (simp add: applyPrices_def)

lemma holding_id_applyPrices: "holding_id (applyPrices prices h) = holding_id h"
  by (simp add: applyPrices_def split: option.split)

text \<open>
  C4. When a refresh call settles with a symbol-to-price object, every holding whose
  symbol is a key of the object gets the mapped value as its currentPrice, every holding
  whose symbol is not a key is left exactly as it was, and symbol, shares, purchasePrice
  and purchaseDate (and the identity) of every holding stay as they were. The
  portfolios, their order and their names do not change. This holds in the API-backed
  front end and in the localStorage front end.
\<close>

theorem reconcile_frame:
  "portfolios (snd (fetchRealTimePrices_response s (Prices prices))) = portfolios s
   \<and> currentPortfolioId (snd (fetchRealTimePrices_response s (Prices prices))) = currentPortfolioId s
   \<and> map fst (holdings (snd (fetchRealTimePrices_response s (Prices prices)))) = map fst (holdings s)
   \<and> (i < length (holdings s) \<longrightarrow>
        (\<forall>h h'.
           h = snd (holdings s ! i) \<and>
           h' = snd (holdings (snd (fetchRealTimePrices_response s (Prices prices))) ! i) \<longrightarrow>
           (\<forall>v. prices (symbol h) = Some v \<longrightarrow> currentPrice h' = v)
           \<and> (prices (symbol h) = None \<longrightarrow> h' = h)
           \<and> symbol h' = symbol h \<and> shares h' = shares h
           \<and> purchasePrice h' = purchasePrice h \<and> purchaseDate h' = purchaseDate h
           \<and> holding_id h' = holding_id h))
   \<and> map fst (ls_portfolios (snd (fetchRealTimePrices_response_ls t (Prices prices))))
       = map fst (ls_portfolios t)
   \<and> (j < length (ls_portfolios t) \<longrightarrow>
        (\<forall>p p'.
           p = snd (ls_portfolios t ! j) \<and>
           p' = snd (ls_portfolios (snd (fetchRealTimePrices_response_ls t (Prices prices))) ! j) \<longrightarrow>
           ls_id p' = ls_id p \<and> ls_name p' = ls_name p
           \<and> length (ls_holdings p') = length (ls_holdings p)
           \<and> (k < length (ls_holdings p) \<longrightarrow>
                (\<forall>h h'.
                   h = ls_holdings p ! k \<and> h' = ls_holdings p' ! k \<longrightarrow>
                   (\<forall>v. prices (symbol h) = Some v \<longrightarrow> currentPrice h' = v)
                   \<and> (prices (symbol h) = None \<longrightarrow> h' = h)
                   \<and> symbol h' = symbol h \<and> shares h' = shares h
                   \<and> purchasePrice h' = purchasePrice h \<and> purchaseDate h' = purchaseDate h))))"
  by (simp add: fetchRealTimePrices_response_def fetchRealTimePrices_response_ls_def
      applyPrices_frame applyPrices_present applyPrices_absent holding_id_applyPrices comp_def)

theorem reconcile_frame_witness:
  "prices0 (symbol (snd (holdings tracker0 ! 0))) = Some (Fin 180.10)
   \<and> currentPrice (snd (holdings tracker0 ! 0)) = Fin 175.30
   \<and> currentPrice (snd (holdings (snd (fetchRealTimePrices_response tracker0 (Prices prices0))) ! 0))
       = Fin 180.10
   \<and> prices0 (symbol (snd (holdings tracker0 ! 1))) = None
   \<and> snd (holdings (snd (fetchRealTimePrices_response tracker0 (Prices prices0))) ! 1) = h2
   \<and> ls_holdings (snd (ls_portfolios ls_tracker0 ! 1)) = [ko, aapl]
   \<and> prices0 (symbol ko) = None
   \<and> ls_holdings (snd (ls_portfolios
         (snd (fetchRealTimePrices_response_ls ls_tracker0 (Prices prices0))) ! 1)) ! 0 = ko"
proof -
  have l: "(0::nat) < length (holdings tracker0)" "(1::nat) < length (holdings tracker0)"
    "(1::nat) < length (ls_portfolios ls_tracker0)"
    "(0::nat) < length (ls_holdings (snd (ls_portfolios ls_tracker0 ! 1)))"
    by (simp_all add: sample_defs)
  have p: "prices0 (symbol (snd (holdings tracker0 ! 0))) = Some (Fin 180.10)"
    "prices0 (symbol (snd (holdings tracker0 ! 1))) = None"
    "snd (holdings tracker0 ! 1) = h2"
    "currentPrice (snd (holdings tracker0 ! 0)) = Fin 175.30"
    "ls_holdings (snd (ls_portfolios ls_tracker0 ! 1)) = [ko, aapl]"
    "prices0 (symbol ko) = None"
    by (simp_all add: sample_defs)
  from reconcile_frame [of tracker0 prices0 0 ls_tracker0 1 0] l(1) p(1)
  have a: "currentPrice (snd (holdings (snd (fetchRealTimePrices_response tracker0 (Prices prices0))) ! 0))
       = Fin 180.10"
    by simp
  from reconcile_frame [of tracker0 prices0 1 ls_tracker0 1 0] l(2) p(2)
  have b: "snd (holdings (snd (fetchRealTimePrices_response tracker0 (Prices prices0))) ! 1)
       = snd (holdings tracker0 ! 1)"
    by simp
  from reconcile_frame [of tracker0 prices0 0 ls_tracker0 1 0] l(3,4) p(5,6)
  have c: "ls_holdings (snd (ls_portfolios
         (snd (fetchRealTimePrices_response_ls ls_tracker0 (Prices prices0))) ! 1)) ! 0 = ko"
    by simp
  show ?thesis using a b c p by simp
qed

lemma response_failure:
  "r = Rejected \<or> r = NotOk \<or> r = BadJson \<Longrightarrow>
   fetchRealTimePrices_response s r = (ConsoleError, s)"
  by (auto simp: fetchRealTimePrices_response_def)

lemma timer_fires_calls:
  "tm \<in> set (timers b) \<Longrightarrow> holdings (app b) \<noteq> [] \<Longrightarrow>
   handle b (TimerFires tm) = b\<lparr>inFlight := inFlight b @ [quotesUrl (allSymbols (app b))]\<rparr>"
  by (simp add: handle_def callFetchRealTimePrices_def fetchRealTimePrices_request_def
      Let_def allSymbols_def newSet_Nil_iff obj_values_def)

lemma started_browser0:
  "startPriceUpdates browser0 =
     \<lparr>app = tracker0\<lparr>priceUpdateInterval := Some 1\<rparr>, timers = [1], nextTimer = 1,
      inFlight = [''/api/quotes?symbols=AAPL,KO'']\<rparr>"
proof -
  have "priceUpdateInterval tracker0 = None"
    by (simp add: tracker0_def)
  then show ?thesis
    by (simp add: startPriceUpdates_def callFetchRealTimePrices_def request_tracker0
        browser0_def Let_def)
qed

text \<open>
  C5. When the call to the price source fails (the request is rejected, the response
  is not ok, as for the backend's 500 on an upstream or authentication error, or the body
  is not JSON), \<open>fetchRealTimePrices\<close> changes nothing in the tracker, so no price of the
  batch is applied, and it reports the failure with \<open>console.error\<close>. The timer stays
  armed: its next firing issues the next call.
\<close>

theorem refresh_failure_keeps_prices:
  assumes "r = Rejected \<or> r = NotOk \<or> r = BadJson"
  shows "fetchRealTimePrices_response s r = (ConsoleError, s)
     \<and> fetchRealTimePrices_response_ls t r = (ConsoleError, t)
     \<and> app (handle b (FetchSettles r)) = app b
     \<and> timers (handle b (FetchSettles r)) = timers b
     \<and> (\<forall>tm \<in> set (timers b). holdings (app b) \<noteq> [] \<longrightarrow>
          inFlight (handle (handle b (FetchSettles r)) (TimerFires tm))
            = inFlight (handle b (FetchSettles r)) @ [quotesUrl (allSymbols (app b))])"
proof -
  have 1: "fetchRealTimePrices_response s r = (ConsoleError, s)" for s
    using assms by (rule response_failure)
  have 2: "fetchRealTimePrices_response_ls t r = (ConsoleError, t)"
    using assms by (auto simp: fetchRealTimePrices_response_ls_def)
  have 3: "app (handle b (FetchSettles r)) = app b \<and> timers (handle b (FetchSettles r)) = timers b"
    by (simp add: handle_def 1 split: list.split)
  show ?thesis using 1 2 3 timer_fires_calls [of _ "handle b (FetchSettles r)"] by simp
qed

theorem refresh_failure_keeps_prices_witness:
  "fetchRealTimePrices_response tracker0 NotOk = (ConsoleError, tracker0)
   \<and> fetchRealTimePrices_response_ls ls_tracker0 NotOk = (ConsoleError, ls_tracker0)
   \<and> app (handle (startPriceUpdates browser0) (FetchSettles NotOk)) = app (startPriceUpdates browser0)
   \<and> timers (handle (startPriceUpdates browser0) (FetchSettles NotOk)) = [1]
   \<and> inFlight (handle (startPriceUpdates browser0) (FetchSettles NotOk)) = []
   \<and> inFlight (handle (handle (startPriceUpdates browser0) (FetchSettles NotOk)) (TimerFires 1))
       = [''/api/quotes?symbols=AAPL,KO'']"
proof -
  have r: "NotOk = Rejected \<or> NotOk = NotOk \<or> NotOk = BadJson"
    by simp
  note F = refresh_failure_keeps_prices [OF r, of tracker0 ls_tracker0 "startPriceUpdates browser0"]
  have t: "timers (startPriceUpdates browser0) = [1]"
    "holdings (app (startPriceUpdates browser0)) \<noteq> []"
    "allSymbols (app (startPriceUpdates browser0)) = [''AAPL'', ''KO'']"
    by (simp_all add: started_browser0 allSymbols_def newSet_def setAdd_def obj_values_def
        tracker0_def h1_def h2_def h3_def)
  have i: "inFlight (handle (startPriceUpdates browser0) (FetchSettles NotOk)) = []"
    by (simp add: started_browser0 handle_def)
  from F t i show ?thesis by (simp add: quotesUrl_sample)
qed

lemma startPriceUpdates_timers:
  "timers b = (case priceUpdateInterval (app b) of None \<Rightarrow> [] | Some t \<Rightarrow> [t]) \<Longrightarrow>
   timers (startPriceUpdates b) = [Suc (nextTimer b)]
   \<and> priceUpdateInterval (app (startPriceUpdates b)) = Some (Suc (nextTimer b))"
  by (simp add: startPriceUpdates_def callFetchRealTimePrices_def Let_def split: option.splits)

text \<open>
  C9, as the code has it. The timer callback calls \<open>fetchRealTimePrices\<close> without
  looking at calls that have not settled: whenever an armed timer fires and there is a
  holding, one more call is in flight, whatever was in flight before, and the tracker
  and the timers are as before. What is never doubled is the timer: from a state whose
  only armed timer is the one recorded in \<open>priceUpdateInterval\<close>, \<open>startPriceUpdates\<close>
  leaves exactly one timer armed, the new one.
\<close>

theorem tick_not_guarded:
  "(tm \<in> set (timers b) \<and> holdings (app b) \<noteq> [] \<longrightarrow>
      inFlight (handle b (TimerFires tm)) = inFlight b @ [quotesUrl (allSymbols (app b))]
      \<and> app (handle b (TimerFires tm)) = app b
      \<and> timers (handle b (TimerFires tm)) = timers b)
   \<and> (timers b = (case priceUpdateInterval (app b) of None \<Rightarrow> [] | Some t \<Rightarrow> [t]) \<longrightarrow>
        timers (startPriceUpdates b) = [Suc (nextTimer b)]
        \<and> priceUpdateInterval (app (startPriceUpdates b)) = Some (Suc (nextTimer b)))"
  using startPriceUpdates_timers [of b] timer_fires_calls [of tm b] by simp

theorem tick_not_guarded_witness:
  "1 \<in> set (timers (startPriceUpdates browser0))
   \<and> holdings (app (startPriceUpdates browser0)) \<noteq> []
   \<and> inFlight (startPriceUpdates browser0) = [''/api/quotes?symbols=AAPL,KO'']
   \<and> inFlight (handle (startPriceUpdates browser0) (TimerFires 1))
       = [''/api/quotes?symbols=AAPL,KO'', ''/api/quotes?symbols=AAPL,KO'']
   \<and> timers browser0 = (case priceUpdateInterval (app browser0) of None \<Rightarrow> [] | Some t \<Rightarrow> [t])
   \<and> timers (startPriceUpdates browser0) = [Suc (nextTimer browser0)]"
proof -
  have t: "1 \<in> set (timers (startPriceUpdates browser0))"
    "holdings (app (startPriceUpdates browser0)) \<noteq> []"
    "allSymbols (app (startPriceUpdates browser0)) = [''AAPL'', ''KO'']"
    "inFlight (startPriceUpdates browser0) = [''/api/quotes?symbols=AAPL,KO'']"
    by (simp_all add: started_browser0 allSymbols_def newSet_def setAdd_def obj_values_def
        tracker0_def h1_def h2_def h3_def)
  have u: "timers browser0 = (case priceUpdateInterval (app browser0) of None \<Rightarrow> [] | Some t \<Rightarrow> [t])"
    by (simp add: sample_defs)
  from tick_not_guarded [of 1 "startPriceUpdates browser0"] t
  have "inFlight (handle (startPriceUpdates browser0) (TimerFires 1))
       = [''/api/quotes?symbols=AAPL,KO'', ''/api/quotes?symbols=AAPL,KO'']"
    by (simp add: quotesUrl_sample)
  moreover from tick_not_guarded [of 1 browser0] u
  have "timers (startPriceUpdates browser0) = [Suc (nextTimer browser0)]"
    by blast
  ultimately show ?thesis using t u by blast
qed

text \<open>
  The claim of C9 as stated fails: \<open>startPriceUpdates\<close> issues a call and arms the
  timer; when the timer fires before that call has settled, two calls are in flight.
\<close>

theorem tick_reentrant_counterexample:
  "inFlight (run (startPriceUpdates browser0) [TimerFires 1])
     = [''/api/quotes?symbols=AAPL,KO'', ''/api/quotes?symbols=AAPL,KO'']
   \<and> length (inFlight (run (startPriceUpdates browser0) [TimerFires 1])) = 2"
proof -
  have "fetchRealTimePrices_request (tracker0\<lparr>priceUpdateInterval := Some 1\<rparr>)
          = Some ''/api/quotes?symbols=AAPL,KO''"
    by (simp add: fetchRealTimePrices_request_def allSymbols_def newSet_def setAdd_def
        obj_values_def quotesUrl_def tracker0_def h1_def h2_def h3_def)
  then show ?thesis
    by (simp add: run_def started_browser0 handle_def callFetchRealTimePrices_def)
qed

section \<open>Properties of deleting a portfolio\<close>

lemma obj_get_obj_delete:
  "obj_get (obj_delete k ob) k' = (if k' = k then None else obj_get ob k')"
  by (induction ob) (auto simp: obj_get_def obj_delete_def)

lemma obj_get_foldl_obj_delete:
  "obj_get (foldl (\<lambda>ob i. obj_delete i ob) ob ids) k =
     (if k \<in> set ids then None else obj_get ob k)"
  by (induction ids arbitrary: ob) (auto simp: obj_get_obj_delete)

lemma obj_keys_obj_delete: "obj_keys (obj_delete k ob) = filter (\<lambda>k'. k' \<noteq> k) (obj_keys ob)"
  by (induction ob) (auto simp: obj_keys_def obj_delete_def)

lemma filter_neq_nonempty:
  "distinct ks \<Longrightarrow> 2 \<le> length ks \<Longrightarrow> filter (\<lambda>k'. k' \<noteq> k) ks \<noteq> []"
proof (induction ks)
  case Nil
  then show ?case by simp
next
  case (Cons a ks)
  show ?case
  proof (cases "a = k")
    case True
    with Cons.prems have "k \<notin> set ks" and "ks \<noteq> []" by auto
    then show ?thesis using True by (cases ks) auto
  next
    case False
    then show ?thesis by simp
  qed
qed

lemma firstKey_obj_delete:
  assumes "distinct (obj_keys ob)" and "2 \<le> length ob"
  shows "filter (\<lambda>k'. k' \<noteq> k) (obj_keys ob) \<noteq> []
     \<and> firstKey (obj_delete k ob) = Some (hd (filter (\<lambda>k'. k' \<noteq> k) (obj_keys ob)))"
proof -
  have n: "filter (\<lambda>k'. k' \<noteq> k) (obj_keys ob) \<noteq> []"
    using assms by (intro filter_neq_nonempty) (simp_all add: obj_keys_def)
  then show ?thesis
    by (cases "filter (\<lambda>k'. k' \<noteq> k) (obj_keys ob)")
       (simp_all add: firstKey_def obj_keys_obj_delete)
qed

text \<open>
  C8. \<open>deletePortfolio\<close> acts on the current portfolio. When it is the only portfolio,
  the outcome is the Cannot Delete dialog and the state is unchanged, whatever the
  user and the backend would answer. With at least two portfolios, once the user has
  confirmed and the backend has deleted the row, the portfolio is gone, the other
  portfolios are kept in their order, every holding of the deleted portfolio is removed
  from \<open>this.holdings\<close> and no other holding is touched, and the current portfolio becomes
  the first of the remaining ones in creation order. The localStorage front end does the
  same, its holdings going with the portfolio that contains them.
\<close>

theorem deletePortfolio_rule:
  "(length (portfolios s) = 1 \<and> getCurrentPortfolio s = Some p \<longrightarrow>
      deletePortfolio s confirmed serverOk = (CannotDelete, s))
   \<and> (2 \<le> length (portfolios s) \<and> distinct (obj_keys (portfolios s))
       \<and> getCurrentPortfolio s = Some p \<and> currentPortfolioId s = Some (portfolio_id p) \<longrightarrow>
       fst (deletePortfolio s True True) = Deleted
       \<and> portfolios (snd (deletePortfolio s True True)) = obj_delete (portfolio_id p) (portfolios s)
       \<and> obj_get (portfolios (snd (deletePortfolio s True True))) (portfolio_id p) = None
       \<and> (\<forall>k. k \<noteq> portfolio_id p \<longrightarrow>
             obj_get (portfolios (snd (deletePortfolio s True True))) k = obj_get (portfolios s) k)
       \<and> (\<forall>i \<in> set (holdingIds p). obj_get (holdings (snd (deletePortfolio s True True))) i = None)
       \<and> (\<forall>i. i \<notin> set (holdingIds p) \<longrightarrow>
             obj_get (holdings (snd (deletePortfolio s True True))) i = obj_get (holdings s) i)
       \<and> obj_keys (portfolios (snd (deletePortfolio s True True)))
           = filter (\<lambda>k. k \<noteq> portfolio_id p) (obj_keys (portfolios s))
       \<and> filter (\<lambda>k. k \<noteq> portfolio_id p) (obj_keys (portfolios s)) \<noteq> []
       \<and> currentPortfolioId (snd (deletePortfolio s True True))
           = Some (hd (filter (\<lambda>k. k \<noteq> portfolio_id p) (obj_keys (portfolios s)))))
   \<and> (length (ls_portfolios t) = 1 \<and> getCurrentPortfolio_ls t = Some q \<longrightarrow>
        deletePortfolio_ls t confirmed = (CannotDelete, t))
   \<and> (2 \<le> length (ls_portfolios t) \<and> distinct (obj_keys (ls_portfolios t))
       \<and> ls_currentPortfolioId t = Some c \<and> obj_get (ls_portfolios t) c = Some q \<longrightarrow>
       fst (deletePortfolio_ls t True) = Deleted
       \<and> ls_portfolios (snd (deletePortfolio_ls t True)) = obj_delete c (ls_portfolios t)
       \<and> obj_get (ls_portfolios (snd (deletePortfolio_ls t True))) c = None
       \<and> (\<forall>k. k \<noteq> c \<longrightarrow>
             obj_get (ls_portfolios (snd (deletePortfolio_ls t True))) k = obj_get (ls_portfolios t) k)
       \<and> obj_keys (ls_portfolios (snd (deletePortfolio_ls t True)))
           = filter (\<lambda>k. k \<noteq> c) (obj_keys (ls_portfolios t))
       \<and> filter (\<lambda>k. k \<noteq> c) (obj_keys (ls_portfolios t)) \<noteq> []
       \<and> ls_currentPortfolioId (snd (deletePortfolio_ls t True))
           = Some (hd (filter (\<lambda>k. k \<noteq> c) (obj_keys (ls_portfolios t)))))"
proof -
  have a: "deletePortfolio s confirmed serverOk = (CannotDelete, s)"
    if "length (portfolios s) = 1" and "getCurrentPortfolio s = Some p"
    using that by (simp add: deletePortfolio_def obj_keys_def)
  have b: "fst (deletePortfolio s True True) = Deleted
       \<and> portfolios (snd (deletePortfolio s True True)) = obj_delete (portfolio_id p) (portfolios s)
       \<and> obj_get (portfolios (snd (deletePortfolio s True True))) (portfolio_id p) = None
       \<and> (\<forall>k. k \<noteq> portfolio_id p \<longrightarrow>
             obj_get (portfolios (snd (deletePortfolio s True True))) k = obj_get (portfolios s) k)
       \<and> (\<forall>i \<in> set (holdingIds p). obj_get (holdings (snd (deletePortfolio s True True))) i = None)
       \<and> (\<forall>i. i \<notin> set (holdingIds p) \<longrightarrow>
             obj_get (holdings (snd (deletePortfolio s True True))) i = obj_get (holdings s) i)
       \<and> obj_keys (portfolios (snd (deletePortfolio s True True)))
           = filter (\<lambda>k. k \<noteq> portfolio_id p) (obj_keys (portfolios s))
       \<and> filter (\<lambda>k. k \<noteq> portfolio_id p) (obj_keys (portfolios s)) \<noteq> []
       \<and> currentPortfolioId (snd (deletePortfolio s True True))
           = Some (hd (filter (\<lambda>k. k \<noteq> portfolio_id p) (obj_keys (portfolios s))))"
    if "2 \<le> length (portfolios s)" and "distinct (obj_keys (portfolios s))"
      and "getCurrentPortfolio s = Some p" and "currentPortfolioId s = Some (portfolio_id p)"
  proof -
    have l: "\<not> length (obj_keys (portfolios s)) \<le> 1"
      using that(1) by (simp add: obj_keys_def)
    have e: "deletePortfolio s True True =
        (Deleted, s\<lparr>holdings := foldl (\<lambda>ob i. obj_delete i ob) (holdings s) (holdingIds p),
                    portfolios := obj_delete (portfolio_id p) (portfolios s),
                    currentPortfolioId := firstKey (obj_delete (portfolio_id p) (portfolios s))\<rparr>)"
      using that(3) l by (simp add: deletePortfolio_def Let_def)
    show ?thesis
      using firstKey_obj_delete [OF that(2,1), of "portfolio_id p"]
      by (simp add: e obj_get_obj_delete obj_get_foldl_obj_delete obj_keys_obj_delete)
  qed
  have c: "deletePortfolio_ls t confirmed = (CannotDelete, t)"
    if "length (ls_portfolios t) = 1" and "getCurrentPortfolio_ls t = Some q"
    using that
    by (auto simp: deletePortfolio_ls_def getCurrentPortfolio_ls_def obj_keys_def
        split: option.splits)
  have d: "fst (deletePortfolio_ls t True) = Deleted
       \<and> ls_portfolios (snd (deletePortfolio_ls t True)) = obj_delete c (ls_portfolios t)
       \<and> obj_get (ls_portfolios (snd (deletePortfolio_ls t True))) c = None
       \<and> (\<forall>k. k \<noteq> c \<longrightarrow>
             obj_get (ls_portfolios (snd (deletePortfolio_ls t True))) k = obj_get (ls_portfolios t) k)
       \<and> obj_keys (ls_portfolios (snd (deletePortfolio_ls t True)))
           = filter (\<lambda>k. k \<noteq> c) (obj_keys (ls_portfolios t))
       \<and> filter (\<lambda>k. k \<noteq> c) (obj_keys (ls_portfolios t)) \<noteq> []
       \<and> ls_currentPortfolioId (snd (deletePortfolio_ls t True))
           = Some (hd (filter (\<lambda>k. k \<noteq> c) (obj_keys (ls_portfolios t))))"
    if "2 \<le> length (ls_portfolios t)" and "distinct (obj_keys (ls_portfolios t))"
      and "ls_currentPortfolioId t = Some c" and "obj_get (ls_portfolios t) c = Some q"
  proof -
    have l: "\<not> length (obj_keys (ls_portfolios t)) \<le> 1"
      using that(1) by (simp add: obj_keys_def)
    have e: "deletePortfolio_ls t True =
        (Deleted, t\<lparr>ls_portfolios := obj_delete c (ls_portfolios t),
                    ls_currentPortfolioId := firstKey (obj_delete c (ls_portfolios t))\<rparr>)"
      using that(3,4) l by (simp add: deletePortfolio_ls_def Let_def)
    show ?thesis
      using firstKey_obj_delete [OF that(2,1), of c]
      by (simp add: e obj_get_obj_delete obj_keys_obj_delete)
  qed
  from a b c d show ?thesis by blast
qed

theorem deletePortfolio_rule_witness:
  "length (portfolios tracker1) = 1
   \<and> getCurrentPortfolio tracker1 = Some (tech\<lparr>holdingIds := []\<rparr>)
   \<and> deletePortfolio tracker1 True True = (CannotDelete, tracker1)
   \<and> 2 \<le> length (portfolios tracker0) \<and> distinct (obj_keys (portfolios tracker0))
   \<and> getCurrentPortfolio tracker0 = Some tech
   \<and> currentPortfolioId tracker0 = Some (portfolio_id tech)
   \<and> fst (deletePortfolio tracker0 True True) = Deleted
   \<and> portfolios (snd (deletePortfolio tracker0 True True)) = [(''p2'', dividend)]
   \<and> currentPortfolioId (snd (deletePortfolio tracker0 True True)) = Some ''p2''
   \<and> obj_get (holdings (snd (deletePortfolio tracker0 True True))) ''h1'' = None
   \<and> obj_get (holdings (snd (deletePortfolio tracker0 True True))) ''h2'' = Some h2
   \<and> length (ls_portfolios ls_tracker1) = 1
   \<and> deletePortfolio_ls ls_tracker1 True = (CannotDelete, ls_tracker1)
   \<and> 2 \<le> length (ls_portfolios ls_tracker0)
   \<and> obj_get (ls_portfolios ls_tracker0) ''portfolio-1'' = Some ls_tech
   \<and> fst (deletePortfolio_ls ls_tracker0 True) = Deleted
   \<and> ls_portfolios (snd (deletePortfolio_ls ls_tracker0 True)) = [(''portfolio-2'', ls_income)]
   \<and> ls_currentPortfolioId (snd (deletePortfolio_ls ls_tracker0 True)) = Some ''portfolio-2''"
proof -
  have one: "length (portfolios tracker1) = 1"
    "getCurrentPortfolio tracker1 = Some (tech\<lparr>holdingIds := []\<rparr>)"
    "length (ls_portfolios ls_tracker1) = 1"
    "getCurrentPortfolio_ls ls_tracker1
       = Some \<lparr>ls_id = ''portfolio-1'', ls_name = ''My First Portfolio'', ls_holdings = []\<rparr>"
    by (simp_all add: tracker1_def ls_tracker1_def getCurrentPortfolio_def
        getCurrentPortfolio_ls_def obj_get_def)
  have two: "2 \<le> length (portfolios tracker0)" "distinct (obj_keys (portfolios tracker0))"
    "getCurrentPortfolio tracker0 = Some tech"
    "currentPortfolioId tracker0 = Some (portfolio_id tech)"
    "2 \<le> length (ls_portfolios ls_tracker0)" "distinct (obj_keys (ls_portfolios ls_tracker0))"
    "ls_currentPortfolioId ls_tracker0 = Some ''portfolio-1''"
    "obj_get (ls_portfolios ls_tracker0) ''portfolio-1'' = Some ls_tech"
    by (simp_all add: tracker0_def ls_tracker0_def tech_def getCurrentPortfolio_def obj_get_def
        obj_keys_def)
  have ev: "obj_delete (portfolio_id tech) (portfolios tracker0) = [(''p2'', dividend)]"
    "holdingIds tech = [''h1'']" "obj_get (holdings tracker0) ''h2'' = Some h2"
    "obj_delete ''portfolio-1'' (ls_portfolios ls_tracker0) = [(''portfolio-2'', ls_income)]"
    "filter (\<lambda>k. k \<noteq> portfolio_id tech) (obj_keys (portfolios tracker0)) = [''p2'']"
    "filter (\<lambda>k. k \<noteq> ''portfolio-1'') (obj_keys (ls_portfolios ls_tracker0)) = [''portfolio-2'']"
    by (simp_all add: tracker0_def ls_tracker0_def tech_def obj_delete_def obj_get_def obj_keys_def)
  from deletePortfolio_rule
         [where s = tracker1 and p = "tech\<lparr>holdingIds := []\<rparr>" and confirmed = True
            and serverOk = True and t = ls_tracker1
            and q = "\<lparr>ls_id = ''portfolio-1'', ls_name = ''My First Portfolio'', ls_holdings = []\<rparr>"]
       one
  have a: "deletePortfolio tracker1 True True = (CannotDelete, tracker1)
     \<and> deletePortfolio_ls ls_tracker1 True = (CannotDelete, ls_tracker1)"
    by simp
  from deletePortfolio_rule
         [where s = tracker0 and p = tech and t = ls_tracker0 and q = ls_tech
            and c = "''portfolio-1''"]
       two ev
  have b: "fst (deletePortfolio tracker0 True True) = Deleted
     \<and> portfolios (snd (deletePortfolio tracker0 True True)) = [(''p2'', dividend)]
     \<and> currentPortfolioId (snd (deletePortfolio tracker0 True True)) = Some ''p2''
     \<and> obj_get (holdings (snd (deletePortfolio tracker0 True True))) ''h1'' = None
     \<and> obj_get (holdings (snd (deletePortfolio tracker0 True True))) ''h2'' = Some h2
     \<and> fst (deletePortfolio_ls ls_tracker0 True) = Deleted
     \<and> ls_portfolios (snd (deletePortfolio_ls ls_tracker0 True)) = [(''portfolio-2'', ls_income)]
     \<and> ls_currentPortfolioId (snd (deletePortfolio_ls ls_tracker0 True)) = Some ''portfolio-2''"
    by simp
  from one two a b show ?thesis by simp
qed

section \<open>Properties of the quotes endpoint\<close>

lemmas parse_defs =
  parseFloat_def parseInt_def takeSign_def takeExponent_def scale10_def digitsVal_def
  digitVal_def isDigit_def isHexDigit_def hexVal_def isWhiteSpace_def signedInf_def

lemma addQuote_skips:
  "quoteSymbol q = None \<or> quoteSymbol q = Some [] \<or> quotePrice q = NaN \<Longrightarrow>
   addQuote prices q = prices"
  by (auto simp: addQuote_def Let_def isNaN_def split: option.splits)

lemma addQuote_apply:
  "addQuote prices q symb =
     (if quoteSymbol q = Some symb \<and> symb \<noteq> [] \<and> symb \<noteq> ''__proto__''
         \<and> quotePrice q \<noteq> NaN
      then Some (quotePrice q) else prices symb)"
  by (auto simp: addQuote_def Let_def isNaN_def split: option.splits)

lemma foldl_addQuote_snoc:
  "foldl addQuote acc (qs @ [q]) symb =
     (if quoteSymbol q = Some symb \<and> symb \<noteq> [] \<and> symb \<noteq> ''__proto__''
         \<and> quotePrice q \<noteq> NaN
      then Some (quotePrice q) else foldl addQuote acc qs symb)"
proof -
  have "foldl addQuote acc (qs @ [q]) symb = addQuote (foldl addQuote acc qs) q symb"
    by simp
  then show ?thesis
    using addQuote_apply [of "foldl addQuote acc qs" q symb] by presburger
qed

lemma foldl_addQuote_origin:
  "foldl addQuote acc qs symb = Some v \<Longrightarrow>
   acc symb = Some v
   \<or> (v \<noteq> NaN \<and> symb \<noteq> [] \<and> (\<exists>q \<in> set qs. quoteSymbol q = Some symb \<and> quotePrice q = v))"
proof (induction qs arbitrary: v rule: rev_induct)
  case Nil
  then show ?case by simp
next
  case (snoc q qs)
  show ?case
  proof (cases "quoteSymbol q = Some symb \<and> symb \<noteq> [] \<and> symb \<noteq> ''__proto__''
      \<and> quotePrice q \<noteq> NaN")
    case True
    with snoc.prems foldl_addQuote_snoc [of acc qs q symb] have "v = quotePrice q"
      by simp
    with True show ?thesis by auto
  next
    case False
    with snoc.prems foldl_addQuote_snoc [of acc qs q symb]
    have "foldl addQuote acc qs symb = Some v"
      by presburger
    from snoc.IH [OF this] show ?thesis by auto
  qed
qed

lemma foldl_addQuote_present:
  "\<exists>q \<in> set qs. quoteSymbol q = Some symb \<and> symb \<noteq> [] \<and> symb \<noteq> ''__proto__''
      \<and> quotePrice q \<noteq> NaN \<Longrightarrow>
   foldl addQuote acc qs symb \<noteq> None"
proof (induction qs rule: rev_induct)
  case Nil
  then show ?case by simp
next
  case (snoc q qs)
  show ?case
  proof (cases "quoteSymbol q = Some symb \<and> symb \<noteq> [] \<and> symb \<noteq> ''__proto__''
      \<and> quotePrice q \<noteq> NaN")
    case True
    with foldl_addQuote_snoc [of acc qs q symb] show ?thesis
      by simp
  next
    case False
    with snoc.prems have "\<exists>q \<in> set qs. quoteSymbol q = Some symb \<and> symb \<noteq> []
        \<and> symb \<noteq> ''__proto__'' \<and> quotePrice q \<noteq> NaN"
      by auto
    from snoc.IH [OF this] False foldl_addQuote_snoc [of acc qs q symb] show ?thesis
      by presburger
  qed
qed

text \<open>
  The object \<open>prices\<close> has an entry for a symbol exactly when some quote carries that
  symbol, not empty and not \<open>__proto__\<close>, with a \<open>last\<close> that \<open>parseFloat\<close> reads as
  a number other than NaN; the price of an entry is the parsed \<open>last\<close> of such a quote
  and is never NaN. A quote without instrument or symbol, or with a price that does not
  parse, changes nothing in the object. An answer without a \<open>quotes\<close> array gives the
  empty object.
\<close>

lemma prices_object_entries:
  "(quotesToPrices (Some qs) symb = Some v \<longrightarrow>
      v \<noteq> NaN \<and> symb \<noteq> [] \<and> (\<exists>q \<in> set qs. quoteSymbol q = Some symb \<and> quotePrice q = v))
   \<and> ((\<exists>q \<in> set qs. quoteSymbol q = Some symb \<and> symb \<noteq> [] \<and> symb \<noteq> ''__proto__''
          \<and> quotePrice q \<noteq> NaN) \<longrightarrow>
        quotesToPrices (Some qs) symb \<noteq> None)
   \<and> (quoteSymbol q = None \<or> quoteSymbol q = Some [] \<or> quotePrice q = NaN \<longrightarrow>
        addQuote prices q = prices)
   \<and> quotesToPrices None symb = None"
  using foldl_addQuote_origin [of Map.empty qs symb v] foldl_addQuote_present [of qs symb Map.empty]
    addQuote_skips [of q prices]
  by (simp add: quotesToPrices_def)

lemma sample_quote_prices:
  "quotePrice quote_aapl = Fin 175.3" "quotePrice quote_anonymous = Fin 10"
  "quotePrice quote_unpriced = NaN" "quotePrice quote_infinite = PInf"
  by (simp_all add: quotePrice_def quote_aapl_def quote_infinite_def quote_unpriced_def
      quote_anonymous_def parse_defs Let_def)

lemma sample_quote_symbols:
  "quoteSymbol quote_aapl = Some ''AAPL''" "quoteSymbol quote_anonymous = None"
  "quoteSymbol quote_unpriced = Some ''KO''" "quoteSymbol quote_infinite = Some ''MSFT''"
  by (simp_all add: quoteSymbol_def quote_aapl_def quote_infinite_def quote_unpriced_def
      quote_anonymous_def)

lemma sample_prices_object:
  "quotesToPrices (Some [quote_aapl, quote_anonymous, quote_unpriced]) ''AAPL'' = Some (Fin 175.3)"
  "quotesToPrices (Some [quote_aapl, quote_anonymous, quote_unpriced]) ''KO'' = None"
  "quotesResponse (Some [quote_aapl, quote_anonymous, quote_unpriced]) ''AAPL''
     = Some (JNumber 175.3)"
  "quotesResponse (Some [quote_aapl, quote_anonymous, quote_unpriced]) ''KO'' = None"
  by (simp_all add: quotesResponse_def res_json_def toJSON_def quotesToPrices_def addQuote_def
      Let_def isNaN_def sample_quote_prices sample_quote_symbols)

text \<open>
  What is sent has the keys of the object. A key is sent with a number exactly when its
  price in the object is finite, and with \<open>null\<close> exactly when that price is one of the
  two infinities.
\<close>

lemma quotesResponse_entries:
  "(quotesResponse quotes symb = None \<longleftrightarrow> quotesToPrices quotes symb = None)
   \<and> (quotesResponse quotes symb = Some (JNumber a) \<longleftrightarrow> quotesToPrices quotes symb = Some (Fin a))
   \<and> (quotesResponse quotes symb = Some JNull \<longleftrightarrow>
        quotesToPrices quotes symb = Some PInf \<or> quotesToPrices quotes symb = Some NInf)"
proof -
  have "quotesToPrices quotes symb \<noteq> Some NaN"
  proof (cases quotes)
    case None
    then show ?thesis by (simp add: quotesToPrices_def)
  next
    case (Some qs)
    show ?thesis
      using foldl_addQuote_origin [of Map.empty qs symb NaN] Some
      by (auto simp: quotesToPrices_def)
  qed
  then show ?thesis
    by (cases "quotesToPrices quotes symb")
      (auto simp: quotesResponse_def res_json_def toJSON_def split: jsnum.splits)
qed

text \<open>
  C10 at an input where the code departs from it. The comment on the guard reads
  ``the parsed price is a valid number'', and the guard is \<open>!isNaN(price)\<close>. A quote for
  \<open>MSFT\<close> whose \<open>last\<close> is the string \<open>Infinity\<close> parses to an infinity, which is
  not NaN: it is entered in \<open>prices\<close>, and the mapping the endpoint returns has
  \<open>MSFT\<close> with \<open>null\<close>, which is no finite parsed number.
\<close>

theorem infinite_quote_returned_as_null:
  "quoteSymbol quote_infinite = Some ''MSFT''
   \<and> quotePrice quote_infinite = PInf
   \<and> isNaN PInf = False
   \<and> isFinite PInf = False
   \<and> quotesToPrices (Some [quote_infinite]) ''MSFT'' = Some PInf
   \<and> quotesResponse (Some [quote_infinite]) ''MSFT'' = Some JNull"
  by (simp add: quotesResponse_def res_json_def toJSON_def quotesToPrices_def addQuote_def
      Let_def isNaN_def sample_quote_prices sample_quote_symbols isFinite_def)

section \<open>Properties of adding a holding\<close>

lemma jsgt_zero:
  "jsgt x (Fin 0) \<Longrightarrow> \<not> falsy x \<and> \<not> jsle x (Fin 0) \<and> \<not> jslt x (Fin 0) \<and> \<not> isNaN x"
  by (cases x) (auto simp: falsy_def jsle_def jslt_def isNaN_def)

lemma jsle_zero: "jsle x (Fin 0) \<Longrightarrow> falsy x \<or> jslt x (Fin 0)"
  by (cases x) (auto simp: falsy_def jsle_def jslt_def)

lemma jsgt_zero_mult: "jsgt a (Fin 0) \<Longrightarrow> jsgt b (Fin 0) \<Longrightarrow> jsgt (jsmul a b) (Fin 0)"
  by (cases a; cases b) (auto simp: signedInf_def)

lemma symbolRegex_nonempty: "symbolRegex s \<Longrightarrow> s \<noteq> []"
  by (auto simp: symbolRegex_def)

lemma obj_get_obj_set:
  "obj_get (obj_set k v ob) k' = (if k' = k then Some v else obj_get ob k')"
  by (induction ob) (auto simp: obj_get_def)

lemma someHoldingHasSymbol_False:
  "\<forall>i \<in> set ids. \<exists>h. obj_get hs i = Some h \<and> symbol h \<noteq> symb \<Longrightarrow>
   someHoldingHasSymbol hs symb ids = Some False"
  by (induction ids) auto

lemma someHoldingHasSymbol_resolved:
  "\<forall>i \<in> set ids. obj_get hs i \<noteq> None \<Longrightarrow>
   someHoldingHasSymbol hs symb ids
     = Some (\<exists>i \<in> set ids. \<exists>h. obj_get hs i = Some h \<and> symbol h = symb)"
proof (induction ids)
  case Nil
  then show ?case by simp
next
  case (Cons i ids)
  then obtain h where h: "obj_get hs i = Some h"
    by auto
  show ?case
  proof (cases "symbol h = symb")
    case True
    with h show ?thesis by auto
  next
    case False
    with h Cons show ?thesis by auto
  qed
qed

lemma someHoldingHasSymbol_True:
  "\<forall>i \<in> set ids. obj_get hs i \<noteq> None \<Longrightarrow>
   \<exists>i \<in> set ids. \<exists>h. obj_get hs i = Some h \<and> symbol h = symb \<Longrightarrow>
   someHoldingHasSymbol hs symb ids = Some True"
  by (simp add: someHoldingHasSymbol_resolved)

lemma addStock_invalid:
  assumes "getCurrentPortfolio s = Some p"
    and "jsle (enteredShares f) (Fin 0) \<or> jsle (enteredPrice f) (Fin 0) \<or> purchaseDate_value f = []"
  shows "addStock s f reply = (InvalidInput, s)"
  using assms jsle_zero [of "enteredShares f"] jsle_zero [of "enteredPrice f"]
  by (auto simp: addStock_def Let_def)

lemma addStock_checked:
  assumes "getCurrentPortfolio s = Some p" and "enteredSymbol f \<noteq> []"
    and "jsgt (enteredShares f) (Fin 0)" and "jsgt (enteredPrice f) (Fin 0)"
    and "purchaseDate_value f \<noteq> []"
  shows "addStock s f reply =
     (case someHoldingHasSymbol (holdings s) (enteredSymbol f) (holdingIds p) of
        None \<Rightarrow> (TypeError, s)
      | Some True \<Rightarrow> (DuplicateStock, s)
      | Some False \<Rightarrow>
          (case reply of
             None \<Rightarrow> (SaveError, s)
           | Some newId \<Rightarrow>
               let s1 = s\<lparr>holdings :=
                          obj_set newId
                            \<lparr>symbol = enteredSymbol f, shares = enteredShares f,
                             purchasePrice = enteredPrice f, purchaseDate = purchaseDate_value f,
                             currentPrice = enteredPrice f, holding_id = newId\<rparr>
                            (holdings s)\<rparr>
               in (case obj_get (portfolios s1) (portfolio_id p) of
                     None \<Rightarrow> (SaveError, s1)
                   | Some p' \<Rightarrow>
                       (Added,
                        s1\<lparr>portfolios :=
                             obj_set (portfolio_id p) (p'\<lparr>holdingIds := holdingIds p' @ [newId]\<rparr>)
                               (portfolios s1)\<rparr>))))"
  using assms(1,2,5) jsgt_zero [OF assms(3)] jsgt_zero [OF assms(4)]
  by (simp add: addStock_def Let_def split: option.split bool.split)

lemma addStock_added:
  assumes "getCurrentPortfolio s = Some p" and "currentPortfolioId s = Some (portfolio_id p)"
    and "symbolRegex (enteredSymbol f)"
    and "jsgt (enteredShares f) (Fin 0)" and "jsgt (enteredPrice f) (Fin 0)"
    and "purchaseDate_value f \<noteq> []"
    and "\<forall>i \<in> set (holdingIds p). \<exists>h. obj_get (holdings s) i = Some h \<and> symbol h \<noteq> enteredSymbol f"
  shows "addStock s f (Some newId) =
     (Added,
      s\<lparr>holdings :=
           obj_set newId
             \<lparr>symbol = enteredSymbol f, shares = enteredShares f,
              purchasePrice = enteredPrice f, purchaseDate = purchaseDate_value f,
              currentPrice = enteredPrice f, holding_id = newId\<rparr>
             (holdings s),
        portfolios :=
          obj_set (portfolio_id p) (p\<lparr>holdingIds := holdingIds p @ [newId]\<rparr>) (portfolios s)\<rparr>)"
    and "addStock s f None = (SaveError, s)"
proof -
  have g: "obj_get (portfolios s) (portfolio_id p) = Some p"
    using assms(1,2) by (simp add: getCurrentPortfolio_def)
  have n: "enteredSymbol f \<noteq> []"
    using assms(3) by (rule symbolRegex_nonempty)
  note c = addStock_checked [OF assms(1) n assms(4,5,6)]
  show "addStock s f (Some newId) =
     (Added,
      s\<lparr>holdings :=
           obj_set newId
             \<lparr>symbol = enteredSymbol f, shares = enteredShares f,
              purchasePrice = enteredPrice f, purchaseDate = purchaseDate_value f,
              currentPrice = enteredPrice f, holding_id = newId\<rparr>
             (holdings s),
        portfolios :=
          obj_set (portfolio_id p) (p\<lparr>holdingIds := holdingIds p @ [newId]\<rparr>) (portfolios s)\<rparr>)"
    by (simp add: c someHoldingHasSymbol_False [OF assms(7)] g Let_def)
  show "addStock s f None = (SaveError, s)"
    by (simp add: c someHoldingHasSymbol_False [OF assms(7)])
qed

lemma addStock_ls_invalid:
  assumes "ls_currentPortfolioId t = Some c" and "obj_get (ls_portfolios t) c = Some q"
    and "jsle (enteredShares f) (Fin 0) \<or> jsle (enteredPrice f) (Fin 0) \<or> purchaseDate_value f = []"
  shows "addStock_ls t f = (InvalidInput, t)"
  using assms jsle_zero [of "enteredShares f"] jsle_zero [of "enteredPrice f"]
  by (auto simp: addStock_ls_def Let_def)

lemma addStock_ls_checked:
  assumes "ls_currentPortfolioId t = Some c" and "obj_get (ls_portfolios t) c = Some q"
    and "enteredSymbol f \<noteq> []"
    and "jsgt (enteredShares f) (Fin 0)" and "jsgt (enteredPrice f) (Fin 0)"
    and "purchaseDate_value f \<noteq> []"
  shows "addStock_ls t f =
     (if list_ex (\<lambda>h. symbol h = enteredSymbol f) (ls_holdings q) then (DuplicateStock, t)
      else (Added,
            t\<lparr>ls_portfolios :=
                 obj_set c
                   (q\<lparr>ls_holdings := ls_holdings q @
                        [\<lparr>symbol = enteredSymbol f, shares = enteredShares f,
                          purchasePrice = enteredPrice f, purchaseDate = purchaseDate_value f,
                          currentPrice = enteredPrice f\<rparr>]\<rparr>)
                   (ls_portfolios t)\<rparr>))"
  using assms(1,2,3,6) jsgt_zero [OF assms(4)] jsgt_zero [OF assms(5)]
  by (simp add: addStock_ls_def Let_def)

lemma addStock_demo_invalid:
  assumes "jsle (enteredShares_demo f) (Fin 0) \<or> jsle (enteredPrice f) (Fin 0)
           \<or> purchaseDate_value f = []"
  shows "snd (addStock_demo s f) = s
     \<and> fst (addStock_demo s f) \<in> {InvalidSymbol, InvalidInput, NotPositive}"
  using assms by (auto simp: addStock_demo_def Let_def)

lemma addStock_demo_checked:
  assumes "symbolRegex (enteredSymbol f)"
    and "jsgt (enteredShares_demo f) (Fin 0)" and "jsgt (enteredPrice f) (Fin 0)"
    and "purchaseDate_value f \<noteq> []"
    and "obj_get (demo_portfolios s) (demo_currentPortfolioId s) = Some q"
  shows "addStock_demo s f =
     (Added,
      s\<lparr>demo_portfolios :=
           obj_set (demo_currentPortfolioId s)
             (q\<lparr>ls_holdings := ls_holdings q @
                  [\<lparr>symbol = enteredSymbol f, shares = enteredShares_demo f,
                    purchasePrice = enteredPrice f, purchaseDate = purchaseDate_value f,
                    currentPrice = enteredPrice f\<rparr>]\<rparr>)
             (demo_portfolios s),
         priceRanges :=
           (case obj_get (priceRanges s) (enteredSymbol f) of
              Some r \<Rightarrow> priceRanges s
            | None \<Rightarrow>
                obj_set (enteredSymbol f)
                  (jsmul (enteredPrice f) (Fin 0.9), jsmul (enteredPrice f) (Fin 1.1))
                  (priceRanges s))\<rparr>)"
  using assms(1,4,5) symbolRegex_nonempty [OF assms(1)] jsgt_zero [OF assms(2)]
    jsgt_zero [OF assms(3)]
  by (simp add: addStock_demo_def Let_def split: option.split)

lemma entered_msft:
  "enteredSymbol form_msft = ''MSFT''" "enteredShares form_msft = Fin 30"
  "enteredShares_demo form_msft = Fin 30" "enteredPrice form_msft = Fin 280"
  "purchaseDate_value form_msft = ''2024-02-01''"
proof -
  show "enteredSymbol form_msft = ''MSFT''"
    unfolding enteredSymbol_def form_msft_def by code_simp
qed (simp_all add: enteredShares_def enteredShares_demo_def enteredPrice_def form_msft_def
      parse_defs Let_def)

lemma entered_gift:
  "enteredSymbol form_gift = ''GIFT''" "enteredShares form_gift = Fin 10"
  "enteredShares_demo form_gift = Fin 10" "enteredPrice form_gift = Fin 0"
  "purchaseDate_value form_gift = ''2024-03-01''"
proof -
  show "enteredSymbol form_gift = ''GIFT''"
    unfolding enteredSymbol_def form_gift_def by code_simp
qed (simp_all add: enteredShares_def enteredShares_demo_def enteredPrice_def form_gift_def
      parse_defs Let_def)

lemma entered_aapl:
  "enteredSymbol form_aapl = ''AAPL''" "enteredShares form_aapl = Fin 5"
  "enteredShares_demo form_aapl = Fin 5" "enteredPrice form_aapl = Fin 160"
  "purchaseDate_value form_aapl = ''2024-02-01''"
proof -
  show "enteredSymbol form_aapl = ''AAPL''"
    unfolding enteredSymbol_def form_aapl_def by code_simp
qed (simp_all add: enteredShares_def enteredShares_demo_def enteredPrice_def form_aapl_def
      parse_defs Let_def)

lemma symbolRegex_samples: "symbolRegex ''MSFT''" "symbolRegex ''GIFT''" "symbolRegex ''AAPL''"
  by (simp_all add: symbolRegex_def isUpper_def isDigit_def)

lemma current_tracker0:
  "getCurrentPortfolio tracker0 = Some tech" "currentPortfolioId tracker0 = Some (portfolio_id tech)"
  "holdingIds tech = [''h1'']" "obj_get (holdings tracker0) ''h1'' = Some h1" "symbol h1 = ''AAPL''"
  by (simp_all add: getCurrentPortfolio_def obj_get_def tracker0_def tech_def h1_def)

lemma current_ls_tracker0:
  "ls_currentPortfolioId ls_tracker0 = Some ''portfolio-1''"
  "obj_get (ls_portfolios ls_tracker0) ''portfolio-1'' = Some ls_tech"
  "ls_holdings ls_tech = [aapl]" "symbol aapl = ''AAPL''"
  by (simp_all add: obj_get_def ls_tracker0_def ls_tech_def aapl_def)

lemma current_demo0:
  "obj_get (demo_portfolios demo0) (demo_currentPortfolioId demo0)
     = Some \<lparr>ls_id = ''tech-growth'', ls_name = ''Tech Growth Portfolio'', ls_holdings = [aapl]\<rparr>"
  "demo_currentPortfolioId demo0 = ''tech-growth''"
  "obj_get (demo_portfolios demo0) ''tech-growth''
     = Some \<lparr>ls_id = ''tech-growth'', ls_name = ''Tech Growth Portfolio'', ls_holdings = [aapl]\<rparr>"
  by (simp_all add: obj_get_def demo0_def)

text \<open>
  C2, as the code has it. With a current portfolio, \<open>addStock\<close> succeeds for every
  input with shares > 0, purchasePrice > 0, a symbol that satisfies the symbol-format
  rule and is not yet held in the current portfolio, and a purchase date that is not
  empty; in the API-backed front end when, moreover, the backend has stored the row
  (otherwise the outcome is the save error and nothing changes). On success the holding
  appended to the portfolio has the entered fields and a currentPrice equal to its
  purchasePrice. For every input with shares \<le> 0, or purchasePrice \<le> 0 (zero included), or
  an empty date, the outcome is a validation failure and the state is unchanged. The
  demo has no duplicate check and reads the shares with \<open>parseInt\<close>.
\<close>

theorem addStock_rule:
  "(getCurrentPortfolio s = Some p \<and> currentPortfolioId s = Some (portfolio_id p)
      \<and> symbolRegex (enteredSymbol f)
      \<and> jsgt (enteredShares f) (Fin 0) \<and> jsgt (enteredPrice f) (Fin 0)
      \<and> purchaseDate_value f \<noteq> []
      \<and> (\<forall>i \<in> set (holdingIds p). \<exists>h. obj_get (holdings s) i = Some h \<and> symbol h \<noteq> enteredSymbol f)
    \<longrightarrow>
      fst (addStock s f (Some newId)) = Added
      \<and> obj_get (holdings (snd (addStock s f (Some newId)))) newId
          = Some \<lparr>symbol = enteredSymbol f, shares = enteredShares f,
                  purchasePrice = enteredPrice f, purchaseDate = purchaseDate_value f,
                  currentPrice = enteredPrice f, holding_id = newId\<rparr>
      \<and> obj_get (portfolios (snd (addStock s f (Some newId)))) (portfolio_id p)
          = Some (p\<lparr>holdingIds := holdingIds p @ [newId]\<rparr>)
      \<and> (\<forall>k. k \<noteq> newId \<longrightarrow>
            obj_get (holdings (snd (addStock s f (Some newId)))) k = obj_get (holdings s) k)
      \<and> (\<forall>k. k \<noteq> portfolio_id p \<longrightarrow>
            obj_get (portfolios (snd (addStock s f (Some newId)))) k = obj_get (portfolios s) k)
      \<and> addStock s f None = (SaveError, s))
   \<and> (getCurrentPortfolio s = Some p
       \<and> (jsle (enteredShares f) (Fin 0) \<or> jsle (enteredPrice f) (Fin 0) \<or> purchaseDate_value f = [])
    \<longrightarrow> addStock s f reply = (InvalidInput, s))
   \<and> (ls_currentPortfolioId t = Some c \<and> obj_get (ls_portfolios t) c = Some q
       \<and> symbolRegex (enteredSymbol f)
       \<and> jsgt (enteredShares f) (Fin 0) \<and> jsgt (enteredPrice f) (Fin 0)
       \<and> purchaseDate_value f \<noteq> []
       \<and> (\<forall>h \<in> set (ls_holdings q). symbol h \<noteq> enteredSymbol f)
    \<longrightarrow>
      fst (addStock_ls t f) = Added
      \<and> obj_get (ls_portfolios (snd (addStock_ls t f))) c
          = Some (q\<lparr>ls_holdings := ls_holdings q @
                     [\<lparr>symbol = enteredSymbol f, shares = enteredShares f,
                       purchasePrice = enteredPrice f, purchaseDate = purchaseDate_value f,
                       currentPrice = enteredPrice f\<rparr>]\<rparr>)
      \<and> (\<forall>k. k \<noteq> c \<longrightarrow>
            obj_get (ls_portfolios (snd (addStock_ls t f))) k = obj_get (ls_portfolios t) k))
   \<and> (ls_currentPortfolioId t = Some c \<and> obj_get (ls_portfolios t) c = Some q
       \<and> (jsle (enteredShares f) (Fin 0) \<or> jsle (enteredPrice f) (Fin 0) \<or> purchaseDate_value f = [])
    \<longrightarrow> addStock_ls t f = (InvalidInput, t))
   \<and> (obj_get (demo_portfolios d) (demo_currentPortfolioId d) = Some q
       \<and> symbolRegex (enteredSymbol f)
       \<and> jsgt (enteredShares_demo f) (Fin 0) \<and> jsgt (enteredPrice f) (Fin 0)
       \<and> purchaseDate_value f \<noteq> []
    \<longrightarrow>
      fst (addStock_demo d f) = Added
      \<and> obj_get (demo_portfolios (snd (addStock_demo d f))) (demo_currentPortfolioId d)
          = Some (q\<lparr>ls_holdings := ls_holdings q @
                     [\<lparr>symbol = enteredSymbol f, shares = enteredShares_demo f,
                       purchasePrice = enteredPrice f, purchaseDate = purchaseDate_value f,
                       currentPrice = enteredPrice f\<rparr>]\<rparr>)
      \<and> (\<forall>k. k \<noteq> demo_currentPortfolioId d \<longrightarrow>
            obj_get (demo_portfolios (snd (addStock_demo d f))) k = obj_get (demo_portfolios d) k))
   \<and> (jsle (enteredShares_demo f) (Fin 0) \<or> jsle (enteredPrice f) (Fin 0)
         \<or> purchaseDate_value f = []
    \<longrightarrow> snd (addStock_demo d f) = d
        \<and> fst (addStock_demo d f) \<in> {InvalidSymbol, InvalidInput, NotPositive})"
proof -
  have a: "fst (addStock s f (Some newId)) = Added
      \<and> obj_get (holdings (snd (addStock s f (Some newId)))) newId
          = Some \<lparr>symbol = enteredSymbol f, shares = enteredShares f,
                  purchasePrice = enteredPrice f, purchaseDate = purchaseDate_value f,
                  currentPrice = enteredPrice f, holding_id = newId\<rparr>
      \<and> obj_get (portfolios (snd (addStock s f (Some newId)))) (portfolio_id p)
          = Some (p\<lparr>holdingIds := holdingIds p @ [newId]\<rparr>)
      \<and> (\<forall>k. k \<noteq> newId \<longrightarrow>
            obj_get (holdings (snd (addStock s f (Some newId)))) k = obj_get (holdings s) k)
      \<and> (\<forall>k. k \<noteq> portfolio_id p \<longrightarrow>
            obj_get (portfolios (snd (addStock s f (Some newId)))) k = obj_get (portfolios s) k)
      \<and> addStock s f None = (SaveError, s)"
    if "getCurrentPortfolio s = Some p" "currentPortfolioId s = Some (portfolio_id p)"
      "symbolRegex (enteredSymbol f)"
      "jsgt (enteredShares f) (Fin 0)" "jsgt (enteredPrice f) (Fin 0)"
      "purchaseDate_value f \<noteq> []"
      "\<forall>i \<in> set (holdingIds p). \<exists>h. obj_get (holdings s) i = Some h \<and> symbol h \<noteq> enteredSymbol f"
    using addStock_added [OF that] by (simp add: obj_get_obj_set)
  have b: "addStock s f reply = (InvalidInput, s)"
    if "getCurrentPortfolio s = Some p"
      "jsle (enteredShares f) (Fin 0) \<or> jsle (enteredPrice f) (Fin 0) \<or> purchaseDate_value f = []"
    using that by (rule addStock_invalid)
  have c: "fst (addStock_ls t f) = Added
      \<and> obj_get (ls_portfolios (snd (addStock_ls t f))) c
          = Some (q\<lparr>ls_holdings := ls_holdings q @
                     [\<lparr>symbol = enteredSymbol f, shares = enteredShares f,
                       purchasePrice = enteredPrice f, purchaseDate = purchaseDate_value f,
                       currentPrice = enteredPrice f\<rparr>]\<rparr>)
      \<and> (\<forall>k. k \<noteq> c \<longrightarrow>
            obj_get (ls_portfolios (snd (addStock_ls t f))) k = obj_get (ls_portfolios t) k)"
    if "ls_currentPortfolioId t = Some c" "obj_get (ls_portfolios t) c = Some q"
      "symbolRegex (enteredSymbol f)"
      "jsgt (enteredShares f) (Fin 0)" "jsgt (enteredPrice f) (Fin 0)"
      "purchaseDate_value f \<noteq> []"
      "\<forall>h \<in> set (ls_holdings q). symbol h \<noteq> enteredSymbol f"
    using addStock_ls_checked [OF that(1,2) symbolRegex_nonempty [OF that(3)] that(4,5,6)] that(7)
    by (simp add: obj_get_obj_set list_ex_iff)
  have d: "addStock_ls t f = (InvalidInput, t)"
    if "ls_currentPortfolioId t = Some c" "obj_get (ls_portfolios t) c = Some q"
      "jsle (enteredShares f) (Fin 0) \<or> jsle (enteredPrice f) (Fin 0) \<or> purchaseDate_value f = []"
    using that by (rule addStock_ls_invalid)
  have e: "fst (addStock_demo d f) = Added
      \<and> obj_get (demo_portfolios (snd (addStock_demo d f))) (demo_currentPortfolioId d)
          = Some (q\<lparr>ls_holdings := ls_holdings q @
                     [\<lparr>symbol = enteredSymbol f, shares = enteredShares_demo f,
                       purchasePrice = enteredPrice f, purchaseDate = purchaseDate_value f,
                       currentPrice = enteredPrice f\<rparr>]\<rparr>)
      \<and> (\<forall>k. k \<noteq> demo_currentPortfolioId d \<longrightarrow>
            obj_get (demo_portfolios (snd (addStock_demo d f))) k = obj_get (demo_portfolios d) k)"
    if "obj_get (demo_portfolios d) (demo_currentPortfolioId d) = Some q"
      "symbolRegex (enteredSymbol f)"
      "jsgt (enteredShares_demo f) (Fin 0)" "jsgt (enteredPrice f) (Fin 0)"
      "purchaseDate_value f \<noteq> []"
    using addStock_demo_checked [OF that(2,3,4,5,1)] by (simp add: obj_get_obj_set)
  have g: "snd (addStock_demo d f) = d
        \<and> fst (addStock_demo d f) \<in> {InvalidSymbol, InvalidInput, NotPositive}"
    if "jsle (enteredShares_demo f) (Fin 0) \<or> jsle (enteredPrice f) (Fin 0)
         \<or> purchaseDate_value f = []"
    using that by (rule addStock_demo_invalid)
  from a b c d e g show ?thesis by blast
qed

theorem addStock_rule_witness:
  "getCurrentPortfolio tracker0 = Some tech
   \<and> symbolRegex (enteredSymbol form_msft)
   \<and> jsgt (enteredShares form_msft) (Fin 0) \<and> jsgt (enteredPrice form_msft) (Fin 0)
   \<and> fst (addStock tracker0 form_msft (Some ''h9'')) = Added
   \<and> obj_get (holdings (snd (addStock tracker0 form_msft (Some ''h9'')))) ''h9''
       = Some \<lparr>symbol = ''MSFT'', shares = Fin 30, purchasePrice = Fin 280,
               purchaseDate = ''2024-02-01'', currentPrice = Fin 280, holding_id = ''h9''\<rparr>
   \<and> obj_get (portfolios (snd (addStock tracker0 form_msft (Some ''h9'')))) ''p1''
       = Some (tech\<lparr>holdingIds := [''h1'', ''h9'']\<rparr>)
   \<and> addStock tracker0 form_msft None = (SaveError, tracker0)
   \<and> jsle (enteredPrice form_gift) (Fin 0)
   \<and> addStock tracker0 form_gift (Some ''h9'') = (InvalidInput, tracker0)
   \<and> fst (addStock_ls ls_tracker0 form_msft) = Added
   \<and> obj_get (ls_portfolios (snd (addStock_ls ls_tracker0 form_msft))) ''portfolio-1''
       = Some (ls_tech\<lparr>ls_holdings :=
                 [aapl, \<lparr>symbol = ''MSFT'', shares = Fin 30, purchasePrice = Fin 280,
                         purchaseDate = ''2024-02-01'', currentPrice = Fin 280\<rparr>]\<rparr>)
   \<and> addStock_ls ls_tracker0 form_gift = (InvalidInput, ls_tracker0)
   \<and> fst (addStock_demo demo0 form_msft) = Added
   \<and> obj_get (demo_portfolios (snd (addStock_demo demo0 form_msft))) ''tech-growth''
       = Some \<lparr>ls_id = ''tech-growth'', ls_name = ''Tech Growth Portfolio'',
               ls_holdings =
                 [aapl, \<lparr>symbol = ''MSFT'', shares = Fin 30, purchasePrice = Fin 280,
                         purchaseDate = ''2024-02-01'', currentPrice = Fin 280\<rparr>]\<rparr>
   \<and> snd (addStock_demo demo0 form_gift) = demo0"
proof -
  have v: "symbolRegex (enteredSymbol form_msft)" "jsgt (enteredShares form_msft) (Fin 0)"
    "jsgt (enteredShares_demo form_msft) (Fin 0)" "jsgt (enteredPrice form_msft) (Fin 0)"
    "purchaseDate_value form_msft \<noteq> []" "jsle (enteredPrice form_gift) (Fin 0)"
    by (simp_all add: entered_msft entered_gift symbolRegex_samples jsle_def)
  have n: "\<forall>i \<in> set (holdingIds tech). \<exists>h. obj_get (holdings tracker0) i = Some h
             \<and> symbol h \<noteq> enteredSymbol form_msft"
    "\<forall>h \<in> set (ls_holdings ls_tech). symbol h \<noteq> enteredSymbol form_msft"
    "\<forall>h \<in> set (ls_holdings \<lparr>ls_id = ''tech-growth'', ls_name = ''Tech Growth Portfolio'',
                              ls_holdings = [aapl]\<rparr>). symbol h \<noteq> enteredSymbol form_msft"
    by (simp_all add: current_tracker0 current_ls_tracker0 entered_msft)
  note ok = addStock_rule
      [where s = tracker0 and p = tech and f = form_msft and newId = "''h9''" and t = ls_tracker0
         and c = "''portfolio-1''" and q = ls_tech and d = demo0]
  note ok_demo = addStock_rule
      [where f = form_msft and d = demo0
         and q = "\<lparr>ls_id = ''tech-growth'', ls_name = ''Tech Growth Portfolio'', ls_holdings = [aapl]\<rparr>"]
  note bad = addStock_rule
      [where s = tracker0 and p = tech and f = form_gift and reply = "Some ''h9''"
         and t = ls_tracker0 and c = "''portfolio-1''" and q = ls_tech and d = demo0]
  from ok v n current_tracker0 current_ls_tracker0
  have a: "fst (addStock tracker0 form_msft (Some ''h9'')) = Added
     \<and> obj_get (holdings (snd (addStock tracker0 form_msft (Some ''h9'')))) ''h9''
         = Some \<lparr>symbol = enteredSymbol form_msft, shares = enteredShares form_msft,
                 purchasePrice = enteredPrice form_msft,
                 purchaseDate = purchaseDate_value form_msft,
                 currentPrice = enteredPrice form_msft, holding_id = ''h9''\<rparr>
     \<and> obj_get (portfolios (snd (addStock tracker0 form_msft (Some ''h9'')))) (portfolio_id tech)
         = Some (tech\<lparr>holdingIds := holdingIds tech @ [''h9'']\<rparr>)
     \<and> addStock tracker0 form_msft None = (SaveError, tracker0)
     \<and> fst (addStock_ls ls_tracker0 form_msft) = Added
     \<and> obj_get (ls_portfolios (snd (addStock_ls ls_tracker0 form_msft))) ''portfolio-1''
         = Some (ls_tech\<lparr>ls_holdings := ls_holdings ls_tech @
                   [\<lparr>symbol = enteredSymbol form_msft, shares = enteredShares form_msft,
                     purchasePrice = enteredPrice form_msft,
                     purchaseDate = purchaseDate_value form_msft,
                     currentPrice = enteredPrice form_msft\<rparr>]\<rparr>)"
    by blast
  from ok_demo v current_demo0
  have b: "fst (addStock_demo demo0 form_msft) = Added
     \<and> obj_get (demo_portfolios (snd (addStock_demo demo0 form_msft))) (demo_currentPortfolioId demo0)
         = Some (\<lparr>ls_id = ''tech-growth'', ls_name = ''Tech Growth Portfolio'', ls_holdings = [aapl]\<rparr>
                 \<lparr>ls_holdings :=
                    ls_holdings \<lparr>ls_id = ''tech-growth'', ls_name = ''Tech Growth Portfolio'',
                                 ls_holdings = [aapl]\<rparr> @
                    [\<lparr>symbol = enteredSymbol form_msft, shares = enteredShares_demo form_msft,
                      purchasePrice = enteredPrice form_msft,
                      purchaseDate = purchaseDate_value form_msft,
                      currentPrice = enteredPrice form_msft\<rparr>]\<rparr>)"
    by blast
  from bad v(6) current_tracker0 current_ls_tracker0
  have c: "addStock tracker0 form_gift (Some ''h9'') = (InvalidInput, tracker0)
     \<and> addStock_ls ls_tracker0 form_gift = (InvalidInput, ls_tracker0)
     \<and> snd (addStock_demo demo0 form_gift) = demo0"
    by blast
  have t: "portfolio_id tech = ''p1''"
    by (simp add: tech_def)
  from a b c v current_tracker0 current_ls_tracker0 current_demo0 t show ?thesis
    by (simp add: entered_msft)
qed

text \<open>
  The claim of C2 as stated fails: a purchase price of zero is not accepted. With ten
  shares, a price of \<open>0\<close>, a well-formed symbol and a date, \<open>!purchasePrice\<close> is true
  and the outcome is the Invalid Input dialog; the demo answers with its alert that
  shares and price must be positive. Nothing is stored.
\<close>

theorem zero_price_counterexample:
  "getCurrentPortfolio tracker0 = Some tech
   \<and> symbolRegex (enteredSymbol form_gift)
   \<and> enteredShares form_gift = Fin 10 \<and> enteredPrice form_gift = Fin 0
   \<and> purchaseDate_value form_gift = ''2024-03-01''
   \<and> addStock tracker0 form_gift (Some ''h9'') = (InvalidInput, tracker0)
   \<and> addStock_ls ls_tracker0 form_gift = (InvalidInput, ls_tracker0)
   \<and> addStock_demo demo0 form_gift = (NotPositive, demo0)"
proof -
  have z: "jsle (enteredShares form_gift) (Fin 0) \<or> jsle (enteredPrice form_gift) (Fin 0)
          \<or> purchaseDate_value form_gift = []"
    by (simp add: entered_gift jsle_def)
  have "addStock_demo demo0 form_gift = (NotPositive, demo0)"
    by (simp add: addStock_demo_def Let_def entered_gift symbolRegex_samples isNaN_def jsle_def)
  then show ?thesis
    using addStock_invalid [OF current_tracker0(1) z]
      addStock_ls_invalid [OF current_ls_tracker0(1,2) z]
    by (simp add: current_tracker0 entered_gift symbolRegex_samples)
qed

text \<open>
  C3, as the code has it. In the API-backed front end and in the localStorage front
  end, when the entered symbol is already held in the current portfolio, \<open>addStock\<close>
  changes nothing and ends with the Duplicate Stock dialog, or with the Invalid Input
  dialog when another field is invalid, which is checked first; with valid fields the
  outcome is Duplicate Stock. (For the API-backed front end every identity of the
  portfolio is taken to be in \<open>this.holdings\<close>.) The demo makes no such check.
\<close>

theorem duplicate_symbol_rejected:
  "(getCurrentPortfolio s = Some p
      \<and> (\<forall>i \<in> set (holdingIds p). obj_get (holdings s) i \<noteq> None)
      \<and> (\<exists>i \<in> set (holdingIds p). \<exists>h. obj_get (holdings s) i = Some h \<and> symbol h = enteredSymbol f)
    \<longrightarrow>
      snd (addStock s f reply) = s
      \<and> (fst (addStock s f reply) = DuplicateStock \<or> fst (addStock s f reply) = InvalidInput)
      \<and> (enteredSymbol f \<noteq> [] \<and> jsgt (enteredShares f) (Fin 0) \<and> jsgt (enteredPrice f) (Fin 0)
           \<and> purchaseDate_value f \<noteq> [] \<longrightarrow>
          addStock s f reply = (DuplicateStock, s)))
   \<and> (ls_currentPortfolioId t = Some c \<and> obj_get (ls_portfolios t) c = Some q
       \<and> (\<exists>h \<in> set (ls_holdings q). symbol h = enteredSymbol f)
    \<longrightarrow>
      snd (addStock_ls t f) = t
      \<and> (fst (addStock_ls t f) = DuplicateStock \<or> fst (addStock_ls t f) = InvalidInput)
      \<and> (enteredSymbol f \<noteq> [] \<and> jsgt (enteredShares f) (Fin 0) \<and> jsgt (enteredPrice f) (Fin 0)
           \<and> purchaseDate_value f \<noteq> [] \<longrightarrow>
          addStock_ls t f = (DuplicateStock, t)))"
proof -
  have a: "snd (addStock s f reply) = s
      \<and> (fst (addStock s f reply) = DuplicateStock \<or> fst (addStock s f reply) = InvalidInput)"
    if "getCurrentPortfolio s = Some p"
      "\<forall>i \<in> set (holdingIds p). obj_get (holdings s) i \<noteq> None"
      "\<exists>i \<in> set (holdingIds p). \<exists>h. obj_get (holdings s) i = Some h \<and> symbol h = enteredSymbol f"
    using that(1) someHoldingHasSymbol_True [OF that(2,3)]
    by (simp add: addStock_def Let_def)
  have b: "addStock s f reply = (DuplicateStock, s)"
    if "getCurrentPortfolio s = Some p"
      "\<forall>i \<in> set (holdingIds p). obj_get (holdings s) i \<noteq> None"
      "\<exists>i \<in> set (holdingIds p). \<exists>h. obj_get (holdings s) i = Some h \<and> symbol h = enteredSymbol f"
      "enteredSymbol f \<noteq> []" "jsgt (enteredShares f) (Fin 0)" "jsgt (enteredPrice f) (Fin 0)"
      "purchaseDate_value f \<noteq> []"
    using addStock_checked [OF that(1,4,5,6,7)] someHoldingHasSymbol_True [OF that(2,3)]
    by simp
  have c: "snd (addStock_ls t f) = t
      \<and> (fst (addStock_ls t f) = DuplicateStock \<or> fst (addStock_ls t f) = InvalidInput)"
    if "ls_currentPortfolioId t = Some c" "obj_get (ls_portfolios t) c = Some q"
      "\<exists>h \<in> set (ls_holdings q). symbol h = enteredSymbol f"
    using that by (simp add: addStock_ls_def Let_def list_ex_iff)
  have d: "addStock_ls t f = (DuplicateStock, t)"
    if "ls_currentPortfolioId t = Some c" "obj_get (ls_portfolios t) c = Some q"
      "\<exists>h \<in> set (ls_holdings q). symbol h = enteredSymbol f"
      "enteredSymbol f \<noteq> []" "jsgt (enteredShares f) (Fin 0)" "jsgt (enteredPrice f) (Fin 0)"
      "purchaseDate_value f \<noteq> []"
    using addStock_ls_checked [OF that(1,2,4,5,6,7)] that(3)
    by (simp add: list_ex_iff)
  from a b c d show ?thesis by blast
qed

theorem duplicate_symbol_rejected_witness:
  "getCurrentPortfolio tracker0 = Some tech
   \<and> holdingIds tech = [''h1''] \<and> obj_get (holdings tracker0) ''h1'' = Some h1
   \<and> symbol h1 = enteredSymbol form_aapl
   \<and> jsgt (enteredShares form_aapl) (Fin 0) \<and> jsgt (enteredPrice form_aapl) (Fin 0)
   \<and> addStock tracker0 form_aapl (Some ''h9'') = (DuplicateStock, tracker0)
   \<and> obj_get (ls_portfolios ls_tracker0) ''portfolio-1'' = Some ls_tech
   \<and> ls_holdings ls_tech = [aapl] \<and> symbol aapl = enteredSymbol form_aapl
   \<and> addStock_ls ls_tracker0 form_aapl = (DuplicateStock, ls_tracker0)"
proof -
  have v: "enteredSymbol form_aapl \<noteq> []" "jsgt (enteredShares form_aapl) (Fin 0)"
    "jsgt (enteredPrice form_aapl) (Fin 0)" "purchaseDate_value form_aapl \<noteq> []"
    "symbol h1 = enteredSymbol form_aapl" "symbol aapl = enteredSymbol form_aapl"
    by (simp_all add: entered_aapl current_tracker0 current_ls_tracker0)
  have h: "\<forall>i \<in> set (holdingIds tech). obj_get (holdings tracker0) i \<noteq> None"
    "\<exists>i \<in> set (holdingIds tech). \<exists>h. obj_get (holdings tracker0) i = Some h
        \<and> symbol h = enteredSymbol form_aapl"
    "\<exists>h \<in> set (ls_holdings ls_tech). symbol h = enteredSymbol form_aapl"
    by (simp_all add: current_tracker0 current_ls_tracker0 entered_aapl)
  from duplicate_symbol_rejected
         [where s = tracker0 and p = tech and f = form_aapl and reply = "Some ''h9''"
            and t = ls_tracker0 and c = "''portfolio-1''" and q = ls_tech]
       v h current_tracker0(1) current_ls_tracker0(1,2)
  have "addStock tracker0 form_aapl (Some ''h9'') = (DuplicateStock, tracker0)
     \<and> addStock_ls ls_tracker0 form_aapl = (DuplicateStock, ls_tracker0)"
    by blast
  with v current_tracker0 current_ls_tracker0 show ?thesis by simp
qed

text \<open>
  The claim of C3 as stated fails on the demo: its \<open>addStock\<close> validates the fields and
  pushes the stock. Adding \<open>AAPL\<close> to the seed portfolio, which holds \<open>AAPL\<close>, succeeds and
  leaves two holdings with that symbol.
\<close>

theorem demo_duplicate_counterexample:
  "obj_get (demo_portfolios demo0) (demo_currentPortfolioId demo0)
     = Some \<lparr>ls_id = ''tech-growth'', ls_name = ''Tech Growth Portfolio'', ls_holdings = [aapl]\<rparr>
   \<and> symbol aapl = enteredSymbol form_aapl
   \<and> fst (addStock_demo demo0 form_aapl) = Added
   \<and> obj_get (demo_portfolios (snd (addStock_demo demo0 form_aapl))) ''tech-growth''
       = Some \<lparr>ls_id = ''tech-growth'', ls_name = ''Tech Growth Portfolio'',
               ls_holdings =
                 [aapl, \<lparr>symbol = ''AAPL'', shares = Fin 5, purchasePrice = Fin 160,
                         purchaseDate = ''2024-02-01'', currentPrice = Fin 160\<rparr>]\<rparr>"
proof -
  have v: "symbolRegex (enteredSymbol form_aapl)" "jsgt (enteredShares_demo form_aapl) (Fin 0)"
    "jsgt (enteredPrice form_aapl) (Fin 0)" "purchaseDate_value form_aapl \<noteq> []"
    by (simp_all add: entered_aapl symbolRegex_samples)
  show ?thesis
    using addStock_demo_checked [OF v current_demo0(1)]
    by (simp add: current_demo0 current_ls_tracker0 entered_aapl obj_get_obj_set)
qed

text \<open>
  Every stock the demo's \<open>addStock\<close> appends has positive shares and a positive
  purchase price, hence a positive total cost: on it the unguarded percentage of
  \<open>createTableRow\<close> is the guarded one of \<open>calculateHoldingMetrics\<close>.
\<close>

lemma addStock_demo_positive:
  assumes "fst (addStock_demo d f) = Added"
  shows "jsgt (enteredShares_demo f) (Fin 0) \<and> jsgt (enteredPrice f) (Fin 0)"
proof -
  have p: "jsgt x (Fin 0)" if "\<not> isNaN x" and "\<not> jsle x (Fin 0)" for x
    using that by (cases x) (auto simp: isNaN_def jsle_def)
  from assms have "\<not> isNaN (enteredShares_demo f) \<and> \<not> jsle (enteredShares_demo f) (Fin 0)
      \<and> \<not> isNaN (enteredPrice f) \<and> \<not> jsle (enteredPrice f) (Fin 0)"
    by (auto simp: addStock_demo_def Let_def split: if_splits option.splits)
  then show ?thesis by (simp add: p)
qed

lemma addStock_demo_metrics:
  assumes "fst (addStock_demo d f) = Added"
    and "shares h = enteredShares_demo f" and "purchasePrice h = enteredPrice f"
  shows "createTableRow_demo h = calculateHoldingMetrics h"
  using addStock_demo_positive [OF assms(1)] assms(2,3)
  by (intro createTableRow_demo_agrees) (simp add: jsgt_zero_mult)

section \<open>The symbols that reach the price source\<close>

text \<open>
  Splitting at commas undoes the join when no symbol has a comma, and a list of symbols
  of the demo's form, upper-case letters and digits, reaches the price source as it was
  collected.
\<close>

lemma split_on_nonempty: "split_on sep s \<noteq> []"
  by (induction s) (auto split: list.split)

lemma split_on_no_sep: "sep \<notin> set x \<Longrightarrow> split_on sep x = [x]"
  by (induction x) auto

lemma split_on_append_sep:
  "sep \<notin> set x \<Longrightarrow> split_on sep (x @ sep # r) = x # split_on sep r"
  by (induction x) auto

lemma split_on_join_comma:
  "syms \<noteq> [] \<Longrightarrow> \<forall>x \<in> set syms. CHR '','' \<notin> set x \<Longrightarrow>
   split_on (CHR '','') (join_comma syms) = syms"
proof (induction syms rule: join_comma.induct)
  case 1
  then show ?case by simp
next
  case (2 x)
  then show ?case by (simp add: split_on_no_sep)
next
  case (3 x y ys)
  then show ?case by (simp add: split_on_append_sep)
qed

lemma set_join_comma: "set (join_comma syms) \<subseteq> insert (CHR '','') (\<Union> (set ` set syms))"
  by (induction syms rule: join_comma.induct) auto

lemma join_comma_Nil_iff: "join_comma syms = [] \<longleftrightarrow> syms = [] \<or> syms = [[]]"
  by (induction syms rule: join_comma.induct) auto

lemma symbolRegex_chars:
  "symbolRegex x \<Longrightarrow> x \<noteq> [] \<and> (\<forall>c \<in> set x. isUpper c \<or> isDigit c)"
  by (auto simp: symbolRegex_def list_all_iff)

lemma plain_char: "isUpper c \<or> isDigit c \<Longrightarrow>
  c \<noteq> CHR '','' \<and> c \<noteq> CHR ''&'' \<and> c \<noteq> CHR ''#'' \<and> c \<noteq> CHR ''='' \<and> toUpperChar c = c"
  by (auto simp: isUpper_def isDigit_def toUpperChar_def Let_def)

lemma plain_symbol:
  assumes "symbolRegex x"
  shows "x \<noteq> []" "CHR '','' \<notin> set x" "CHR ''&'' \<notin> set x" "CHR ''#'' \<notin> set x"
    "CHR ''='' \<notin> set x" "toUpperCase x = x"
proof -
  from assms have 1: "x \<noteq> []" and 2: "\<forall>c \<in> set x. isUpper c \<or> isDigit c"
    using symbolRegex_chars by blast+
  show "x \<noteq> []" by (rule 1)
  show "CHR '','' \<notin> set x" "CHR ''&'' \<notin> set x" "CHR ''#'' \<notin> set x" "CHR ''='' \<notin> set x"
    using 2 plain_char by blast+
  show "toUpperCase x = x"
    using 2 plain_char by (simp add: toUpperCase_def map_idI)
qed

lemma queryString_quotesUrl:
  "CHR ''#'' \<notin> set j \<Longrightarrow> queryString (''/api/quotes?symbols='' @ j) = ''symbols='' @ j"
proof -
  assume "CHR ''#'' \<notin> set j"
  then have "takeWhile (\<lambda>c. c \<noteq> CHR ''#'') (''/api/quotes?symbols='' @ j)
      = ''/api/quotes?symbols='' @ j"
    by (auto simp: takeWhile_eq_all_conv)
  then show ?thesis
    by (simp add: queryString_def)
qed

lemma quotesInstruments_plain:
  assumes ne: "syms \<noteq> []" and ok: "\<forall>x \<in> set syms. symbolRegex x"
  shows "quotesInstruments (quotesUrl syms) = Upstream syms"
proof -
  let ?j = "join_comma syms"
  have chars: "\<forall>x \<in> set syms. CHR ''&'' \<notin> set x \<and> CHR ''#'' \<notin> set x \<and> CHR '','' \<notin> set x"
    using ok plain_symbol by blast
  have j: "CHR ''&'' \<notin> set ?j" "CHR ''#'' \<notin> set ?j"
    using set_join_comma [of syms] chars by auto
  have jne: "?j \<noteq> []"
  proof
    assume "?j = []"
    with ne join_comma_Nil_iff [of syms] have "syms = [[]]"
      by simp
    with ok have "symbolRegex []"
      by simp
    then show False
      by (simp add: symbolRegex_def)
  qed
  have q: "queryString (quotesUrl syms) = ''symbols='' @ ?j"
    unfolding quotesUrl_def using j(2) by (rule queryString_quotesUrl)
  have "split_on (CHR ''&'') (''symbols='' @ ?j) = [''symbols='' @ ?j]"
    using j by (simp add: split_on_no_sep)
  then have "req_query_symbols (quotesUrl syms) = Single ?j"
    by (simp add: req_query_symbols_def q)
  moreover have "split_on (CHR '','') ?j = syms"
    using ne chars by (simp add: split_on_join_comma)
  moreover have "map toUpperCase syms = syms"
    using ok plain_symbol(6) by (simp add: map_idI)
  ultimately show ?thesis
    using jne by (simp add: quotesInstruments_def)
qed

text \<open>The front ends accept the symbols \<open>a,b\<close>, \<open>a\<close> and \<open>at&t\<close>.\<close>

lemma entered_ab:
  "enteredSymbol form_ab = ''A,B''" "enteredSymbol form_a = ''A''"
  "enteredSymbol form_att = ''AT&T''"
  "enteredShares form_ab = Fin 1" "enteredPrice form_ab = Fin 10"
  "enteredShares form_a = Fin 1" "enteredPrice form_a = Fin 10"
  "enteredShares form_att = Fin 1" "enteredPrice form_att = Fin 10"
  "purchaseDate_value form_ab = ''2024-03-01''" "purchaseDate_value form_a = ''2024-03-01''"
  "purchaseDate_value form_att = ''2024-03-01''"
proof -
  show "enteredSymbol form_ab = ''A,B''"
    unfolding enteredSymbol_def form_ab_def by code_simp
  show "enteredSymbol form_a = ''A''"
    unfolding enteredSymbol_def form_a_def by code_simp
  show "enteredSymbol form_att = ''AT&T''"
    unfolding enteredSymbol_def form_att_def by code_simp
qed (simp_all add: enteredShares_def enteredPrice_def form_ab_def form_a_def form_att_def
      parse_defs Let_def)

lemma added_ab:
  "addStock tracker1 form_ab (Some ''h1'')
     = (Added, tracker2\<lparr>portfolios := [(''p1'', tech\<lparr>holdingIds := [''h1'']\<rparr>)],
                        holdings := [(''h1'', held_ab)]\<rparr>)"
  by (simp add: addStock_def getCurrentPortfolio_def obj_get_def entered_ab Let_def
      falsy_def jsle_def jslt_def tracker1_def tracker2_def tech_def held_ab_def)

lemma added_a:
  "addStock (tracker2\<lparr>portfolios := [(''p1'', tech\<lparr>holdingIds := [''h1'']\<rparr>)],
                        holdings := [(''h1'', held_ab)]\<rparr>) form_a (Some ''h2'')
     = (Added, tracker2)"
  by (simp add: addStock_def getCurrentPortfolio_def obj_get_def entered_ab Let_def
      falsy_def jsle_def jslt_def tracker2_def tech_def held_ab_def held_a_def)

lemma added_att:
  "addStock tracker1 form_att (Some ''h1'')
     = (Added, tracker1\<lparr>portfolios := [(''p1'', tech\<lparr>holdingIds := [''h1'']\<rparr>)],
          holdings := [(''h1'', held_ab\<lparr>symbol := ''AT&T''\<rparr>)]\<rparr>)"
  by (simp add: addStock_def getCurrentPortfolio_def obj_get_def entered_ab Let_def
      falsy_def jsle_def jslt_def tracker1_def tech_def held_ab_def)

lemma added_ls:
  "fst (addStock_ls ls_tracker1 form_ab) = Added"
  "addStock_ls (snd (addStock_ls ls_tracker1 form_ab)) form_a = (Added, ls_tracker2)"
  by (simp_all add: addStock_ls_def obj_get_def entered_ab Let_def
      falsy_def jsle_def jslt_def ls_tracker1_def ls_tracker2_def)

lemma requests2:
  "fetchRealTimePrices_request tracker2 = Some ''/api/quotes?symbols=A,B,A''"
  "fetchRealTimePrices_request_ls ls_tracker2 = Some ''/api/quotes?symbols=A,B,A''"
  by (simp_all add: fetchRealTimePrices_request_def fetchRealTimePrices_request_ls_def
      allSymbols_def allSymbols_ls_def allHoldings_ls_def newSet_def setAdd_def obj_values_def
      quotesUrl_def tracker2_def ls_tracker2_def held_ab_def held_a_def)

lemma request_att:
  "fetchRealTimePrices_request (snd (addStock tracker1 form_att (Some ''h1'')))
     = Some ''/api/quotes?symbols=AT&T''"
  by (simp add: added_att fetchRealTimePrices_request_def allSymbols_def newSet_def setAdd_def
      obj_values_def quotesUrl_def held_ab_def)

lemma instruments2:
  "quotesInstruments ''/api/quotes?symbols=A,B,A'' = Upstream [''A'', ''B'', ''A'']"
  "quotesInstruments ''/api/quotes?symbols=AT&T'' = Upstream [''AT'']"
  "quotesInstruments ''/api/quotes?symbols=AAPL,KO'' = Upstream [''AAPL'', ''KO'']"
  unfolding quotesInstruments_def req_query_symbols_def queryString_def by code_simp+

text \<open>
  C7 at an input where the code departs from it. The front ends collect the symbols in
  a \<open>Set\<close>, so the array they join has no duplicate, but they join it with commas into
  the URL without encoding, and \<open>addStock\<close> accepts every symbol that is not empty
  (only the demo checks symbols against \<open>symbolRegex\<close>). After the symbols \<open>a,b\<close>
  and \<open>a\<close> have been added to an empty portfolio, the refresh call asks for
  \<open>/api/quotes?symbols=A,B,A\<close>, and the endpoint, which splits at every comma, posts
  the instruments \<open>A\<close>, \<open>B\<close>, \<open>A\<close> to the price source: \<open>A\<close> is sent twice and
  the held symbol \<open>A,B\<close> is not sent. With the one symbol \<open>AT&T\<close> the parameter
  ends at the ampersand and the symbol sent is \<open>AT\<close>.
\<close>

theorem comma_symbol_sent_twice:
  "fst (addStock tracker1 form_ab (Some ''h1'')) = Added
   \<and> addStock (snd (addStock tracker1 form_ab (Some ''h1''))) form_a (Some ''h2'')
       = (Added, tracker2)
   \<and> allSymbols tracker2 = [''A,B'', ''A'']
   \<and> fetchRealTimePrices_request tracker2 = Some ''/api/quotes?symbols=A,B,A''
   \<and> fst (addStock_ls ls_tracker1 form_ab) = Added
   \<and> addStock_ls (snd (addStock_ls ls_tracker1 form_ab)) form_a = (Added, ls_tracker2)
   \<and> allSymbols_ls ls_tracker2 = [''A,B'', ''A'']
   \<and> fetchRealTimePrices_request_ls ls_tracker2 = Some ''/api/quotes?symbols=A,B,A''
   \<and> quotesInstruments ''/api/quotes?symbols=A,B,A'' = Upstream [''A'', ''B'', ''A'']
   \<and> \<not> distinct [''A'', ''B'', ''A'']
   \<and> ''A,B'' \<notin> set [''A'', ''B'', ''A'']
   \<and> fst (addStock tracker1 form_att (Some ''h1'')) = Added
   \<and> fetchRealTimePrices_request (snd (addStock tracker1 form_att (Some ''h1'')))
       = Some ''/api/quotes?symbols=AT&T''
   \<and> quotesInstruments ''/api/quotes?symbols=AT&T'' = Upstream [''AT'']"
proof -
  have "allSymbols tracker2 = [''A,B'', ''A'']" "allSymbols_ls ls_tracker2 = [''A,B'', ''A'']"
    by (simp_all add: allSymbols_def allSymbols_ls_def allHoldings_ls_def newSet_def setAdd_def
        obj_values_def tracker2_def ls_tracker2_def held_ab_def held_a_def)
  moreover have "fst (addStock tracker1 form_att (Some ''h1'')) = Added"
    by (simp add: added_att)
  ultimately show ?thesis
    by (simp add: added_ab added_a added_ls requests2 request_att instruments2)
qed

section \<open>The holding metrics in every version\<close>

text \<open>
  C1. For every holding, \<open>calculateHoldingMetrics\<close> returns marketValue = shares times
  currentPrice, gainLoss = marketValue minus shares times purchasePrice, and
  gainLossPercent = (gainLoss / totalCost) times 100 when totalCost is positive and
  exactly 0 when totalCost is 0. With purchasePrice = 0 the percentage is 0 whatever the
  shares and the current price are. On finite inputs the three results are finite and
  are the values of the rational formulas, so no division by zero takes place. The
  demo's inline computation in \<open>createTableRow\<close>, which has no guard, gives the same
  three values whenever the total cost is positive, and so for every holding that the
  demo's \<open>addStock\<close> adds.
\<close>

theorem holding_metrics_rule:
  "marketValue (calculateHoldingMetrics h) = jsmul (shares h) (currentPrice h)
   \<and> metrics.totalGainLoss (calculateHoldingMetrics h) =
       jssub (marketValue (calculateHoldingMetrics h)) (jsmul (shares h) (purchasePrice h))
   \<and> (jsgt (jsmul (shares h) (purchasePrice h)) (Fin 0) \<longrightarrow>
        gainLossPercent (calculateHoldingMetrics h) =
          jsmul (jsdiv (metrics.totalGainLoss (calculateHoldingMetrics h))
                       (jsmul (shares h) (purchasePrice h))) (Fin 100))
   \<and> (jsmul (shares h) (purchasePrice h) = Fin 0 \<longrightarrow>
        gainLossPercent (calculateHoldingMetrics h) = Fin 0)
   \<and> (purchasePrice h = Fin 0 \<longrightarrow> gainLossPercent (calculateHoldingMetrics h) = Fin 0)
   \<and> (\<forall>n p c. shares h = Fin n \<and> purchasePrice h = Fin p \<and> currentPrice h = Fin c \<longrightarrow>
        calculateHoldingMetrics h =
          \<lparr>marketValue = Fin (n * c), metrics.totalGainLoss = Fin (n * c - n * p),
           gainLossPercent =
             (if 0 < n * p then Fin ((n * c - n * p) / (n * p) * 100) else Fin 0)\<rparr>)
   \<and> (jsgt (jsmul (shares h) (purchasePrice h)) (Fin 0) \<longrightarrow>
        createTableRow_demo h = calculateHoldingMetrics h)
   \<and> (fst (addStock_demo d f) = Added \<and> shares h = enteredShares_demo f
        \<and> purchasePrice h = enteredPrice f \<longrightarrow>
        createTableRow_demo h = calculateHoldingMetrics h)"
proof -
  have "marketValue (calculateHoldingMetrics h) = jsmul (shares h) (currentPrice h)"
    by (simp add: calculateHoldingMetrics_def Let_def)
  moreover have "metrics.totalGainLoss (calculateHoldingMetrics h) =
       jssub (marketValue (calculateHoldingMetrics h)) (jsmul (shares h) (purchasePrice h))"
    by (simp add: calculateHoldingMetrics_def Let_def)
  moreover have "jsgt (jsmul (shares h) (purchasePrice h)) (Fin 0) \<longrightarrow>
        gainLossPercent (calculateHoldingMetrics h) =
          jsmul (jsdiv (metrics.totalGainLoss (calculateHoldingMetrics h))
                       (jsmul (shares h) (purchasePrice h))) (Fin 100)"
    by (simp add: calculateHoldingMetrics_def Let_def)
  moreover have "jsmul (shares h) (purchasePrice h) = Fin 0 \<longrightarrow>
        gainLossPercent (calculateHoldingMetrics h) = Fin 0"
    by (simp add: calculateHoldingMetrics_def Let_def)
  ultimately show ?thesis
    using gainLossPercent_zero_price [of h] calculateHoldingMetrics_finite [of h]
      createTableRow_demo_agrees [of h] addStock_demo_metrics [of d f h]
    by blast
qed

theorem holding_metrics_rule_witness:
  "calculateHoldingMetrics aapl =
     \<lparr>marketValue = Fin 8765, metrics.totalGainLoss = Fin 1252.5,
      gainLossPercent = Fin (10020 / 601)\<rparr>
   \<and> createTableRow_demo aapl = calculateHoldingMetrics aapl
   \<and> purchasePrice gifted = Fin 0
   \<and> jsmul (shares gifted) (purchasePrice gifted) = Fin 0
   \<and> gainLossPercent (calculateHoldingMetrics gifted) = Fin 0
   \<and> fst (addStock_demo demo0 form_aapl) = Added
   \<and> shares (aapl\<lparr>shares := Fin 5, purchasePrice := Fin 160\<rparr>) = enteredShares_demo form_aapl
   \<and> purchasePrice (aapl\<lparr>shares := Fin 5, purchasePrice := Fin 160\<rparr>) = enteredPrice form_aapl
   \<and> createTableRow_demo (aapl\<lparr>shares := Fin 5, purchasePrice := Fin 160\<rparr>)
       = calculateHoldingMetrics (aapl\<lparr>shares := Fin 5, purchasePrice := Fin 160\<rparr>)"
proof -
  have a: "shares aapl = Fin 50 \<and> purchasePrice aapl = Fin 150.25 \<and> currentPrice aapl = Fin 175.30"
    by (simp add: aapl_def)
  have c: "jsgt (jsmul (shares aapl) (purchasePrice aapl)) (Fin 0)"
    by (simp add: aapl_def)
  have g: "purchasePrice gifted = Fin 0" "jsmul (shares gifted) (purchasePrice gifted) = Fin 0"
    by (simp_all add: gifted_def)
  have "calculateHoldingMetrics aapl =
          \<lparr>marketValue = Fin (50 * 175.30), metrics.totalGainLoss = Fin (50 * 175.30 - 50 * 150.25),
           gainLossPercent =
             (if (0::rat) < 50 * 150.25 then Fin ((50 * 175.30 - 50 * 150.25) / (50 * 150.25) * 100)
              else Fin 0)\<rparr>"
    using holding_metrics_rule [of aapl] a by blast
  then have "calculateHoldingMetrics aapl =
     \<lparr>marketValue = Fin 8765, metrics.totalGainLoss = Fin 1252.5,
      gainLossPercent = Fin (10020 / 601)\<rparr>"
    by simp
  moreover have "createTableRow_demo aapl = calculateHoldingMetrics aapl"
    using holding_metrics_rule [of aapl] c by blast
  moreover have "gainLossPercent (calculateHoldingMetrics gifted) = Fin 0"
    using holding_metrics_rule [of gifted] g by blast
  moreover have d: "fst (addStock_demo demo0 form_aapl) = Added"
    "shares (aapl\<lparr>shares := Fin 5, purchasePrice := Fin 160\<rparr>) = enteredShares_demo form_aapl"
    "purchasePrice (aapl\<lparr>shares := Fin 5, purchasePrice := Fin 160\<rparr>) = enteredPrice form_aapl"
    by (simp_all add: addStock_demo_def Let_def entered_aapl symbolRegex_samples isNaN_def
        jsle_def current_demo0)
  moreover have "createTableRow_demo (aapl\<lparr>shares := Fin 5, purchasePrice := Fin 160\<rparr>)
       = calculateHoldingMetrics (aapl\<lparr>shares := Fin 5, purchasePrice := Fin 160\<rparr>)"
    using holding_metrics_rule
            [where h = "aapl\<lparr>shares := Fin 5, purchasePrice := Fin 160\<rparr>" and d = demo0
               and f = form_aapl] d
    by blast
  ultimately show ?thesis using g by simp
qed

end
